theory Spec2Isabelle
  imports Main "HOL-Library.Word"
begin

section \<open>Machine integers and errors\<close>

text \<open>
  Go's \<^verbatim>\<open>int\<close> is modelled as a 64-bit word: \<open>+\<close> and \<open>-\<close> wrap around, and the
  comparisons of the source are the signed ones (\<open><s\<close>, \<open>\<le>s\<close>).
\<close>

type_synonym goint = "64 word"

text \<open>Go's \<^verbatim>\<open>rune\<close> is \<^verbatim>\<open>int32\<close>: a Unicode code point.\<close>

type_synonym rune = "32 word"

text \<open>A value built by \<^verbatim>\<open>errors.New(msg)\<close>.\<close>

datatype goerror = ErrorsNew string

text \<open>\<^verbatim>\<open>type ErrAction struct { viewname, action string; err error }\<close> (xui.go, 29-33).\<close>

record ErrAction =
  viewname :: string
  action :: string
  err :: "goerror option"

text \<open>
  A non-nil value of Go's \<^verbatim>\<open>error\<close> interface as the package produces it: an
  \<^verbatim>\<open>ErrAction\<close>, or a plain error handed up from the surface. \<open>None\<close> of
  \<open>error option\<close> is \<^verbatim>\<open>nil\<close>.
\<close>

datatype error = ActionError ErrAction | PlainError goerror

text \<open>\<^verbatim>\<open>func Error(msg string) ErrAction\<close> (xui.go, 47-49).\<close>

definition Error :: "string \<Rightarrow> ErrAction" where
  "Error msg = \<lparr>viewname = [], action = [], err = Some (ErrorsNew msg)\<rparr>"

text \<open>\<^verbatim>\<open>func UnknownAction() ErrAction\<close> (xui.go, 53-55).\<close>

definition UnknownAction :: ErrAction where
  "UnknownAction = \<lparr>viewname = [], action = [], err = None\<rparr>"

text \<open>\<^verbatim>\<open>minInt\<close> and \<^verbatim>\<open>maxInt\<close> (xui.go, 319-331).\<close>

definition minInt :: "goint \<Rightarrow> goint \<Rightarrow> goint" where
  "minInt x y = (if x <s y then x else y)"

definition maxInt :: "goint \<Rightarrow> goint \<Rightarrow> goint" where
  "maxInt x y = (if y <s x then x else y)"

section \<open>The surface\<close>

text \<open>
  Modelled from the spec: the rendering surface (\<^verbatim>\<open>gocui.View\<close>), an external
  collaborator that is not part of the sources. The spec (sections 1, 3 and 6) gives it a
  visible size, a scroll origin, a cursor, a text and flags. The field \<open>buffer\<close> holds
  the lines of the text, one rune per cell; \<open>Editor\<close> is the prompt editor installed on
  the surface, if any, given by the offset that it has captured. The field \<open>calls\<close> is a
  log of the \<^verbatim>\<open>SetOrigin\<close> and \<^verbatim>\<open>SetCursor\<close> calls issued on the surface, kept so
  that "no call was issued" can be stated. Colours are left out.
\<close>

datatype surface_call = CallSetOrigin goint goint | CallSetCursor goint goint

record View =
  sizeX :: goint
  sizeY :: goint
  originX :: goint
  originY :: goint
  cursorX :: goint
  cursorY :: goint
  buffer :: "rune list list"
  Wrap :: bool
  viewHighlight :: bool
  Editable :: bool
  Editor :: "goint option"
  calls :: "surface_call list"

text \<open>
  Modelled from the spec: a surface as the host creates it, which is not part of the
  sources: empty, with origin and cursor at the top left.
\<close>

definition NewView :: "goint \<Rightarrow> goint \<Rightarrow> View" where
  "NewView sx sy =
     \<lparr>sizeX = sx, sizeY = sy, originX = 0, originY = 0, cursorX = 0, cursorY = 0,
      buffer = [], Wrap = False, viewHighlight = False, Editable = False, Editor = None,
      calls = []\<rparr>"

text \<open>
  Modelled from the spec: \<^verbatim>\<open>View.Size\<close>, \<^verbatim>\<open>View.Origin\<close> and \<^verbatim>\<open>View.Cursor\<close>, which
  are not part of the sources (section 6: get size, get origin, get cursor), each as
  columns and rows.
\<close>

definition Size :: "View \<Rightarrow> goint \<times> goint" where
  "Size v = (sizeX v, sizeY v)"

definition Origin :: "View \<Rightarrow> goint \<times> goint" where
  "Origin v = (originX v, originY v)"

definition Cursor :: "View \<Rightarrow> goint \<times> goint" where
  "Cursor v = (cursorX v, cursorY v)"

text \<open>
  Modelled from the spec: the error with which the surface, which is not part of the
  sources, rejects an out-of-range coordinate (section 4.1, step 5, and section 7).
\<close>

definition invalid_point :: error where
  "invalid_point = PlainError (ErrorsNew ''invalid point'')"

text \<open>
  Modelled from the spec: \<^verbatim>\<open>View.SetOrigin\<close>, which is not part of the sources. The
  surface rejects an out-of-range coordinate and then changes nothing (section 4.1, step 5);
  the range is that of the library: neither coordinate of an origin may be negative.
\<close>

definition SetOrigin :: "View \<Rightarrow> goint \<Rightarrow> goint \<Rightarrow> error option \<times> View" where
  "SetOrigin v x y =
     (let v' = v\<lparr>calls := calls v @ [CallSetOrigin x y]\<rparr> in
      if x <s 0 \<or> y <s 0 then (Some invalid_point, v')
      else (None, v'\<lparr>originX := x, originY := y\<rparr>))"

text \<open>
  Modelled from the spec: \<^verbatim>\<open>View.SetCursor\<close>, which is not part of the sources. The
  surface rejects an out-of-range coordinate and then changes nothing (section 4.1, step 5);
  the range is that of the library: a cursor must lie inside the visible size.
\<close>

definition SetCursor :: "View \<Rightarrow> goint \<Rightarrow> goint \<Rightarrow> error option \<times> View" where
  "SetCursor v x y =
     (let v' = v\<lparr>calls := calls v @ [CallSetCursor x y]\<rparr>;
          (maxX, maxY) = Size v in
      if x <s 0 \<or> maxX \<le>s x \<or> y <s 0 \<or> maxY \<le>s y then (Some invalid_point, v')
      else (None, v'\<lparr>cursorX := x, cursorY := y\<rparr>))"

section \<open>Moving the selected line\<close>

text \<open>\<^verbatim>\<open>func GetLine(view *gocui.View) int\<close> (widget.go, 246-253).\<close>

definition GetLine :: "View option \<Rightarrow> goint" where
  "GetLine view =
     (case view of
        Some v \<Rightarrow> (let (_, oy) = Origin v; (_, cy) = Cursor v in oy + cy)
      | None \<Rightarrow> 0)"

text \<open>
  \<^verbatim>\<open>MoveLines\<close>, first half (widget.go, 261-279): the requested delta is checked
  against the top and the bottom and clamped. \<open>Inl\<close> is the early return of an error.
  The parameter \<^verbatim>\<open>max\<close> of the source is written \<open>maxl\<close>.
\<close>

definition clampDelta :: "goint \<Rightarrow> goint \<Rightarrow> goint \<Rightarrow> ErrAction + goint" where
  "clampDelta current maxl delta =
     (if delta <s 0 then
        (if current \<le>s 0 then Inl (Error ''at top'')
         else Inr (if current + delta <s 0 then - current else delta))
      else
        (let fromBottom = maxl - current;
             delta1 = (if 0 <s fromBottom \<and> fromBottom <s delta then fromBottom else delta)
         in if maxl \<le>s current + 1 then Inl (Error ''at bottom'')
            else Inr (if maxl \<le>s current + delta1 then maxl - current - 1 else delta1)))"

text \<open>The final \<^verbatim>\<open>if delta != 0 { SetCursor(cx, cy+delta) }\<close> (widget.go, 307-311).\<close>

definition applyCursor :: "View \<Rightarrow> goint \<Rightarrow> goint \<Rightarrow> goint \<Rightarrow> error option \<times> View" where
  "applyCursor v cx cy delta =
     (if delta \<noteq> 0 then SetCursor v cx (cy + delta) else (None, v))"

text \<open>
  \<^verbatim>\<open>MoveLines\<close>, second half (widget.go, 282-311): a non-zero delta is split between
  the origin and the cursor. An error of the surface is returned at once; what was already
  set stays set.
\<close>

definition applyDelta :: "View \<Rightarrow> goint \<Rightarrow> goint \<Rightarrow> error option \<times> View" where
  "applyDelta v maxl delta =
     (let (_, sy) = Size v;
          (ox, oy) = Origin v;
          (cx, cy) = Cursor v
      in if delta <s 0 then
           (if cy + delta <s 0 then
              (let odelta = maxInt delta (- oy) in
               case SetOrigin v ox (oy + odelta) of
                 (Some e, v') \<Rightarrow> (Some e, v')
               | (None, v') \<Rightarrow> applyCursor v' cx cy (delta - odelta))
            else applyCursor v cx cy delta)
         else
           (if sy \<le>s cy + delta then
              (let my = maxl - sy in
               if oy <s my then
                 (let odelta = minInt delta (my - oy) in
                  case SetOrigin v ox (oy + odelta) of
                    (Some e, v') \<Rightarrow> (Some e, v')
                  | (None, v') \<Rightarrow> applyCursor v' cx cy (delta - odelta))
               else applyCursor v cx cy delta)
            else applyCursor v cx cy delta))"

text \<open>
  \<^verbatim>\<open>func MoveLines(view *gocui.View, current, max, delta int) error\<close>
  (widget.go, 256-315). The view is passed by pointer and mutated in place: the model
  returns the view after the call beside the error.
\<close>

definition MoveLines :: "View option \<Rightarrow> goint \<Rightarrow> goint \<Rightarrow> goint \<Rightarrow> error option \<times> View option" where
  "MoveLines view current maxl delta =
     (case view of
        None \<Rightarrow> (None, None)
      | Some v \<Rightarrow>
          (case clampDelta current maxl delta of
             Inl e \<Rightarrow> (Some (ActionError e), Some v)
           | Inr d \<Rightarrow>
               if d \<noteq> 0 then (let (e, v') = applyDelta v maxl d in (e, Some v'))
               else (None, Some v)))"

section \<open>ScrollWidget\<close>

text \<open>
  \<^verbatim>\<open>type ScrollWidget struct\<close> (widget.go, 86-92); the field \<^verbatim>\<open>max\<close> is written
  \<open>maxl\<close>. Methods on \<^verbatim>\<open>*ScrollWidget\<close> return the widget after the call.
\<close>

record ScrollWidget =
  Highlight :: bool
  view :: "View option"
  maxl :: goint
  current :: goint

text \<open>
  \<^verbatim>\<open>func (w *ScrollWidget) SetView(view *gocui.View)\<close> (widget.go, 100-108), without
  the two selection colours.
\<close>

definition SetView :: "ScrollWidget \<Rightarrow> View option \<Rightarrow> ScrollWidget" where
  "SetView w vw =
     (case vw of
        Some v \<Rightarrow> w\<lparr>view := Some (v\<lparr>Wrap := False, viewHighlight := Highlight w\<rparr>)\<rparr>
      | None \<Rightarrow> w\<lparr>view := None\<rparr>)"

text \<open>The zero value of the struct: what \<^verbatim>\<open>&ScrollWidget{}\<close> or \<^verbatim>\<open>new(ScrollWidget)\<close> gives.\<close>

definition NewScrollWidget :: ScrollWidget where
  "NewScrollWidget = \<lparr>Highlight = False, view = None, maxl = 0, current = 0\<rparr>"

text \<open>\<^verbatim>\<open>func (w *ScrollWidget) Current() int\<close> (widget.go, 117-119).\<close>

definition Current :: "ScrollWidget \<Rightarrow> goint" where
  "Current w = current w"

text \<open>
  \<^verbatim>\<open>func (w *ScrollWidget) SetCurrent(idx int) error\<close> (widget.go, 122-126): the move,
  then the read-back of the selected line from the view.
\<close>

definition SetCurrent :: "ScrollWidget \<Rightarrow> goint \<Rightarrow> error option \<times> ScrollWidget" where
  "SetCurrent w idx =
     (let (e, view') = MoveLines (view w) (current w) (maxl w) (idx - current w)
      in (e, w\<lparr>view := view', current := GetLine view'\<rparr>))"

text \<open>
  \<^verbatim>\<open>func (w *ScrollWidget) clampCurrent()\<close> (widget.go, 128-134); the error of
  \<^verbatim>\<open>SetCurrent\<close> is dropped.
\<close>

definition clampCurrent :: "ScrollWidget \<Rightarrow> ScrollWidget" where
  "clampCurrent w =
     (if current w <s 0 then w\<lparr>current := 0\<rparr>
      else if 0 <s current w \<and> maxl w \<le>s current w then snd (SetCurrent w (maxl w - 1))
      else w)"

text \<open>\<^verbatim>\<open>func (w *ScrollWidget) SetMax(max int)\<close> (widget.go, 111-114).\<close>

definition SetMax :: "ScrollWidget \<Rightarrow> goint \<Rightarrow> ScrollWidget" where
  "SetMax w m = clampCurrent (w\<lparr>maxl := m\<rparr>)"

text \<open>
  \<^verbatim>\<open>PreviousLine\<close> and \<^verbatim>\<open>NextLine\<close> (widget.go, 153-164), \<^verbatim>\<open>NextPage\<close> and
  \<^verbatim>\<open>PreviousPage\<close> (widget.go, 167-186). The two page steps do nothing without a view.
\<close>

definition PreviousLine :: "ScrollWidget \<Rightarrow> error option \<times> ScrollWidget" where
  "PreviousLine w =
     (let (e, view') = MoveLines (view w) (current w) (maxl w) (- 1)
      in (e, w\<lparr>view := view', current := GetLine view'\<rparr>))"

definition NextLine :: "ScrollWidget \<Rightarrow> error option \<times> ScrollWidget" where
  "NextLine w =
     (let (e, view') = MoveLines (view w) (current w) (maxl w) 1
      in (e, w\<lparr>view := view', current := GetLine view'\<rparr>))"

definition NextPage :: "ScrollWidget \<Rightarrow> error option \<times> ScrollWidget" where
  "NextPage w =
     (case view w of
        Some v \<Rightarrow>
          (let (_, sy) = Size v;
               (e, view') = MoveLines (view w) (current w) (maxl w) sy
           in (e, w\<lparr>view := view', current := GetLine view'\<rparr>))
      | None \<Rightarrow> (None, w))"

definition PreviousPage :: "ScrollWidget \<Rightarrow> error option \<times> ScrollWidget" where
  "PreviousPage w =
     (case view w of
        Some v \<Rightarrow>
          (let (_, sy) = Size v;
               (e, view') = MoveLines (view w) (current w) (maxl w) (- sy)
           in (e, w\<lparr>view := view', current := GetLine view'\<rparr>))
      | None \<Rightarrow> (None, w))"

text \<open>The action names (xui.go, 15-20).\<close>

definition ActionNextLine :: string where
  "ActionNextLine = ''next_line''"

definition ActionNextPage :: string where
  "ActionNextPage = ''next_page''"

definition ActionPreviousLine :: string where
  "ActionPreviousLine = ''prev_line''"

definition ActionPreviousPage :: string where
  "ActionPreviousPage = ''prev_page''"

text \<open>\<^verbatim>\<open>func (w *ScrollWidget) HandleAction(action string) error\<close> (widget.go, 137-150).\<close>

definition HandleAction :: "ScrollWidget \<Rightarrow> string \<Rightarrow> error option \<times> ScrollWidget" where
  "HandleAction w a =
     (if a = ActionNextLine then NextLine w
      else if a = ActionNextPage then NextPage w
      else if a = ActionPreviousLine then PreviousLine w
      else if a = ActionPreviousPage then PreviousPage w
      else (Some (ActionError UnknownAction), w))"

section \<open>ListWidget\<close>

text \<open>
  \<^verbatim>\<open>type ListWidget struct\<close> (widget.go, 189-194), with the three methods that
  delegate to the embedded \<^verbatim>\<open>ScrollWidget\<close> (widget.go, 215-223 and 240-243). The
  field \<^verbatim>\<open>Highlight\<close> of the list is written \<open>listHighlight\<close>.
\<close>

record ListWidget =
  listHighlight :: bool
  base :: ScrollWidget
  model :: "string list"

definition ListCurrent :: "ListWidget \<Rightarrow> goint" where
  "ListCurrent l = Current (base l)"

definition ListSetCurrent :: "ListWidget \<Rightarrow> goint \<Rightarrow> error option \<times> ListWidget" where
  "ListSetCurrent l idx = (let (e, b) = SetCurrent (base l) idx in (e, l\<lparr>base := b\<rparr>))"

definition ListHandleAction :: "ListWidget \<Rightarrow> string \<Rightarrow> error option \<times> ListWidget" where
  "ListHandleAction l a = (let (e, b) = HandleAction (base l) a in (e, l\<lparr>base := b\<rparr>))"

section \<open>The order of the downward checks, as the specification words it\<close>

text \<open>
  The three steps of the specification for a downward move, each a definition of its own:
  first the clamp to \<open>fromBottom\<close>, second the failure at the bottom, third the clamp to
  the last line.
\<close>

definition spec_first :: "goint \<Rightarrow> goint \<Rightarrow> goint \<Rightarrow> goint" where
  "spec_first c m d =
     (let fromBottom = m - c in if 0 <s fromBottom \<and> fromBottom <s d then fromBottom else d)"

definition spec_second :: "goint \<Rightarrow> goint \<Rightarrow> bool" where
  "spec_second c m = (m \<le>s c + 1)"

definition spec_third :: "goint \<Rightarrow> goint \<Rightarrow> goint \<Rightarrow> goint" where
  "spec_third c m d = (if m \<le>s c + d then m - c - 1 else d)"

definition spec_downward :: "goint \<Rightarrow> goint \<Rightarrow> goint \<Rightarrow> ErrAction + goint" where
  "spec_downward c m d =
     (let d1 = spec_first c m d
      in if spec_second c m then Inl (Error ''at bottom'')
         else Inr (spec_third c m d1))"

section \<open>Strings: UTF-8, width and padding\<close>

text \<open>
  A Go string is a sequence of bytes: \<open>string\<close>, that is \<open>char list\<close>.
  \<^verbatim>\<open>for _, ch := range s\<close> decodes it as UTF-8, one rune at a time; a byte that starts
  no valid encoding gives \<^verbatim>\<open>utf8.RuneError\<close> and is one byte wide.
\<close>

definition RuneError :: rune where
  "RuneError = 0xFFFD"

definition byte :: "char \<Rightarrow> nat" where
  "byte c = of_char c"

definition contByte :: "char \<Rightarrow> bool" where
  "contByte c = (0x80 \<le> byte c \<and> byte c \<le> 0xBF)"

text \<open>
  The range that the second byte of an encoding must lie in, by the first byte (the
  \<^verbatim>\<open>acceptRanges\<close> of the Go library).
\<close>

definition secondLo :: "nat \<Rightarrow> nat" where
  "secondLo b0 = (if b0 = 0xE0 then 0xA0 else if b0 = 0xF0 then 0x90 else 0x80)"

definition secondHi :: "nat \<Rightarrow> nat" where
  "secondHi b0 = (if b0 = 0xED then 0x9F else if b0 = 0xF4 then 0x8F else 0xBF)"

definition secondOk :: "nat \<Rightarrow> char \<Rightarrow> bool" where
  "secondOk b0 c = (secondLo b0 \<le> byte c \<and> byte c \<le> secondHi b0)"

text \<open>\<^verbatim>\<open>utf8.DecodeRuneInString\<close>: the first rune of a string and its width in bytes.\<close>

fun decodeRune :: "string \<Rightarrow> rune \<times> nat" where
  "decodeRune [] = (RuneError, 0)"
| "decodeRune (c0 # cs) =
     (let b0 = byte c0 in
      if b0 < 0x80 then (of_nat b0, 1)
      else if b0 < 0xC2 \<or> 0xF4 < b0 then (RuneError, 1)
      else if b0 < 0xE0 then
        (case cs of
           c1 # _ \<Rightarrow>
             if secondOk b0 c1
             then (of_nat (b0 mod 0x20 * 0x40 + byte c1 mod 0x40), 2)
             else (RuneError, 1)
         | _ \<Rightarrow> (RuneError, 1))
      else if b0 < 0xF0 then
        (case cs of
           c1 # c2 # _ \<Rightarrow>
             if secondOk b0 c1 \<and> contByte c2
             then (of_nat (b0 mod 0x10 * 0x1000 + byte c1 mod 0x40 * 0x40 + byte c2 mod 0x40), 3)
             else (RuneError, 1)
         | _ \<Rightarrow> (RuneError, 1))
      else
        (case cs of
           c1 # c2 # c3 # _ \<Rightarrow>
             if secondOk b0 c1 \<and> contByte c2 \<and> contByte c3
             then (of_nat (b0 mod 0x08 * 0x40000 + byte c1 mod 0x40 * 0x1000
                           + byte c2 mod 0x40 * 0x40 + byte c3 mod 0x40), 4)
             else (RuneError, 1)
         | _ \<Rightarrow> (RuneError, 1)))"

text \<open>The runes that \<^verbatim>\<open>range s\<close> yields.\<close>

fun decodeRunes :: "string \<Rightarrow> rune list" where
  "decodeRunes [] = []"
| "decodeRunes (c # cs) =
     (let (r, n) = decodeRune (c # cs) in r # decodeRunes (drop (n - 1) cs))"

text \<open>
  \<^verbatim>\<open>utf8.EncodeRune\<close>, as the conversion \<^verbatim>\<open>string(runes)\<close> applies it: a rune that is
  negative, beyond \<open>U+10FFFF\<close> or a surrogate is encoded as \<^verbatim>\<open>RuneError\<close>.
\<close>

definition chr :: "nat \<Rightarrow> char" where
  "chr n = char_of n"

definition encodeRune :: "rune \<Rightarrow> string" where
  "encodeRune r =
     (let i = sint r in
      if i < 0 \<or> 0x10FFFF < i \<or> (0xD800 \<le> i \<and> i \<le> 0xDFFF) then [chr 0xEF, chr 0xBF, chr 0xBD]
      else let n = nat i in
        if n < 0x80 then [chr n]
        else if n < 0x800 then [chr (0xC0 + n div 0x40), chr (0x80 + n mod 0x40)]
        else if n < 0x10000 then
          [chr (0xE0 + n div 0x1000), chr (0x80 + n div 0x40 mod 0x40), chr (0x80 + n mod 0x40)]
        else
          [chr (0xF0 + n div 0x40000), chr (0x80 + n div 0x1000 mod 0x40),
           chr (0x80 + n div 0x40 mod 0x40), chr (0x80 + n mod 0x40)])"

definition encodeRunes :: "rune list \<Rightarrow> string" where
  "encodeRunes rs = concat (map encodeRune rs)"

text \<open>\<^verbatim>\<open>len(s)\<close>, an \<^verbatim>\<open>int\<close>.\<close>

definition len :: "string \<Rightarrow> goint" where
  "len s = of_nat (length s)"

text \<open>
  \<^verbatim>\<open>func StringWidth(s string) int\<close> (xui.go, 295-305). The two functions of the
  \<^verbatim>\<open>go-runewidth\<close> library, which is not part of the sources, are parameters.
\<close>

definition StringWidth :: "(rune \<Rightarrow> goint) \<Rightarrow> (rune \<Rightarrow> bool) \<Rightarrow> string \<Rightarrow> goint" where
  "StringWidth RuneWidth IsAmbiguousWidth s =
     foldl (\<lambda>w ch.
              let rw = RuneWidth ch;
                  rw1 = (if rw = 0 \<or> rw = 2 \<and> IsAmbiguousWidth ch then 1 else rw)
              in w + rw1)
           0 (decodeRunes s)"

text \<open>
  The regular expression \<^verbatim>\<open>\x1b\[[0-?]*[ -/]*[@-~]\<close> (xui.go, 25): the three character
  classes, and the match of the expression at the start of a string, which gives the rest
  of the string after the match. Both stars are greedy.
\<close>

definition ESC :: char where
  "ESC = CHR 0x1B"

definition paramByte :: "char \<Rightarrow> bool" where
  "paramByte c = (0x30 \<le> byte c \<and> byte c \<le> 0x3F)"

definition intermediateByte :: "char \<Rightarrow> bool" where
  "intermediateByte c = (0x20 \<le> byte c \<and> byte c \<le> 0x2F)"

definition finalByte :: "char \<Rightarrow> bool" where
  "finalByte c = (0x40 \<le> byte c \<and> byte c \<le> 0x7E)"

definition matchEscapeSeq :: "string \<Rightarrow> string option" where
  "matchEscapeSeq s =
     (case s of
        e # b # r \<Rightarrow>
          if e = ESC \<and> b = CHR ''[''
          then (case dropWhile intermediateByte (dropWhile paramByte r) of
                  f # rest \<Rightarrow> if finalByte f then Some rest else None
                | [] \<Rightarrow> None)
          else None
      | _ \<Rightarrow> None)"

text \<open>
  \<^verbatim>\<open>reStripEscapeSeq.ReplaceAllString(s, "")\<close>: every match, leftmost first and without
  overlap, is removed. A match is at least three bytes long, so the scan ends.
\<close>

function stripEscapeSeq :: "string \<Rightarrow> string" where
  "stripEscapeSeq [] = []"
| "stripEscapeSeq (c # cs) =
     (case matchEscapeSeq (c # cs) of
        Some rest \<Rightarrow> stripEscapeSeq rest
      | None \<Rightarrow> c # stripEscapeSeq cs)"
  by pat_completeness auto
termination
proof (relation "measure length")
  show "wf (measure length)"
    by simp
next
  fix c :: char and cs :: string
  show "(cs, c # cs) \<in> measure length"
    by simp
next
  fix c :: char and cs rest :: string
  assume m: "matchEscapeSeq (c # cs) = Some rest"
  have le: "length (dropWhile intermediateByte (dropWhile paramByte r)) \<le> length r" for r
    by (rule order_trans [OF length_dropWhile_le length_dropWhile_le])
  from m obtain b r f where cs: "cs = b # r"
    and d: "dropWhile intermediateByte (dropWhile paramByte r) = f # rest"
    by (auto simp: matchEscapeSeq_def split: list.splits if_splits)
  from le [of r] d have "length rest < length r"
    by simp
  with cs show "(rest, c # cs) \<in> measure length"
    by simp
qed

text \<open>What a Go program panics with, where these functions can.\<close>

datatype panic = NegativeRepeatCount | SliceBoundsOutOfRange

text \<open>\<^verbatim>\<open>strings.Repeat(s, count)\<close>, which panics on a negative count.\<close>

definition Repeat :: "string \<Rightarrow> goint \<Rightarrow> panic + string" where
  "Repeat s count =
     (if count <s 0 then Inl NegativeRepeatCount
      else Inr (concat (replicate (nat (sint count)) s)))"

text \<open>\<^verbatim>\<open>func Pad(s string, n int) string\<close> (xui.go, 310-317).\<close>

definition Pad :: "(rune \<Rightarrow> goint) \<Rightarrow> (rune \<Rightarrow> bool) \<Rightarrow> string \<Rightarrow> goint \<Rightarrow> panic + string" where
  "Pad RuneWidth IsAmbiguousWidth s n =
     (let ss = stripEscapeSeq s;
          w = StringWidth RuneWidth IsAmbiguousWidth ss
      in if w <s n then
           (case Repeat '' '' (n - w) of
              Inl p \<Rightarrow> Inl p
            | Inr spaces \<Rightarrow> Inr (s @ spaces))
         else Inr s)"

text \<open>
  The language of the regular expression as the specification words it: ESC, \<open>[\<close>, any
  number of parameter bytes, any number of intermediate bytes, one final byte.
\<close>

definition spec_escape_seq :: "string \<Rightarrow> bool" where
  "spec_escape_seq q =
     (\<exists>ps is f. q = ESC # CHR ''['' # ps @ is @ [f]
        \<and> (\<forall>c \<in> set ps. paramByte c) \<and> (\<forall>c \<in> set is. intermediateByte c) \<and> finalByte f)"

section \<open>Trimming white space\<close>

text \<open>\<^verbatim>\<open>unicode.IsSpace\<close>: the white space of Unicode.\<close>

definition isSpace :: "rune \<Rightarrow> bool" where
  "isSpace r =
     (r \<in> {0x09, 0x0A, 0x0B, 0x0C, 0x0D, 0x20, 0x85, 0xA0, 0x1680, 0x2028, 0x2029, 0x202F,
            0x205F, 0x3000}
      \<or> (0x2000 \<le> r \<and> r \<le> 0x200A))"

definition runeStart :: "char \<Rightarrow> bool" where
  "runeStart c = (\<not> contByte c)"

text \<open>
  \<^verbatim>\<open>utf8.DecodeLastRuneInString\<close>: the last rune of a string and its width. The start
  of the rune is looked for among the three bytes before the last one.
\<close>

definition decodeLastRune :: "string \<Rightarrow> rune \<times> nat" where
  "decodeLastRune s =
     (let n = length s in
      if n = 0 then (RuneError, 0)
      else if byte (last s) < 0x80 then (of_nat (byte (last s)), 1)
      else
        (let prev = take 3 (tl (rev s));
             k = length (takeWhile (\<lambda>c. \<not> runeStart c) prev);
             start = (if k < length prev then n - 2 - k else n - 5);
             (r, size) = decodeRune (drop start s)
         in if start + size \<noteq> n then (RuneError, 1) else (r, size)))"

fun trimLeft :: "string \<Rightarrow> string" where
  "trimLeft [] = []"
| "trimLeft (c # cs) =
     (let (r, n) = decodeRune (c # cs)
      in if isSpace r then trimLeft (drop (n - 1) cs) else c # cs)"

text \<open>The string is handed over reversed, so that its end is the head of the list.\<close>

fun trimRightRev :: "string \<Rightarrow> string" where
  "trimRightRev [] = []"
| "trimRightRev (c # cs) =
     (let (r, n) = decodeLastRune (rev (c # cs))
      in if isSpace r then trimRightRev (drop (n - 1) cs) else c # cs)"

definition trimRight :: "string \<Rightarrow> string" where
  "trimRight s = rev (trimRightRev (rev s))"

text \<open>\<^verbatim>\<open>strings.TrimSpace\<close>.\<close>

definition TrimSpace :: "string \<Rightarrow> string" where
  "TrimSpace s = trimRight (trimLeft s)"

section \<open>Text on the surface\<close>

text \<open>
  The text operations of the surface are not part of the sources either. The spec names
  \<^verbatim>\<open>Clear\<close> and \<^verbatim>\<open>Write\<close> (section 6) and, for the prompt (section 4.4), inserting
  a character at the cursor, deleting the character before or after the cursor, and moving
  the cursor left or right. The cell under the cursor is at column origin + cursor of line
  origin + cursor.
\<close>

text \<open>Modelled from the spec: \<^verbatim>\<open>View.Clear\<close>, which is not part of the sources (section 6).\<close>

definition Clear :: "View \<Rightarrow> View" where
  "Clear v = v\<lparr>buffer := []\<rparr>"

text \<open>
  Modelled from the spec: \<^verbatim>\<open>View.Write\<close>, which is not part of the sources (section 6:
  append text). The text is appended rune by rune to the last line; a line feed starts a
  new line.
\<close>

definition writeRune :: "rune list list \<Rightarrow> rune \<Rightarrow> rune list list" where
  "writeRune ls ch =
     (if ch = 0x0A then ls @ [[]]
      else if ls = [] then [[ch]]
      else butlast ls @ [last ls @ [ch]])"

definition Write :: "View \<Rightarrow> string \<Rightarrow> View" where
  "Write v s = v\<lparr>buffer := foldl writeRune (buffer v) (decodeRunes s)\<rparr>"

text \<open>
  Modelled from the spec: \<^verbatim>\<open>View.Buffer\<close>, which is not part of the sources (section
  4.4: the buffer, of which the editor takes the first line). It gives the lines as a
  string, each ended by a line feed.
\<close>

definition Buffer :: "View \<Rightarrow> string" where
  "Buffer v = concat (map (\<lambda>l. encodeRunes l @ [CHR 0x0A]) (buffer v))"

text \<open>
  Modelled from the spec: \<^verbatim>\<open>View.EditWrite\<close>, which is not part of the sources (section
  4.4, rules 1 and 2: insert at the cursor). The cursor then moves one cell to the right; a
  character written beyond the end of a line is preceded by blanks.
\<close>

definition insertAt :: "nat \<Rightarrow> rune \<Rightarrow> rune list \<Rightarrow> rune list" where
  "insertAt x ch l = take x (l @ replicate (x - length l) 0x20) @ [ch] @ drop x l"

definition mapLine :: "nat \<Rightarrow> (rune list \<Rightarrow> rune list) \<Rightarrow> View \<Rightarrow> View" where
  "mapLine y f v =
     (if y < length (buffer v) then v\<lparr>buffer := (buffer v)[y := f (buffer v ! y)]\<rparr> else v)"

definition EditWrite :: "View \<Rightarrow> rune \<Rightarrow> View" where
  "EditWrite v ch =
     (let x = originX v + cursorX v; y = originY v + cursorY v in
      if x <s 0 \<or> y <s 0 then v
      else
        (let ny = nat (sint y);
             v1 = v\<lparr>buffer := buffer v @ replicate (Suc ny - length (buffer v)) []\<rparr>;
             v2 = mapLine ny (insertAt (nat (sint x)) ch) v1
         in v2\<lparr>cursorX := cursorX v + 1\<rparr>))"

text \<open>
  Modelled from the spec: \<^verbatim>\<open>View.EditDelete\<close>, which is not part of the sources (section
  4.4, rules 3 and 4). With \<open>back\<close> it deletes the character before the cursor, if the
  cursor is not at the start of the line, and moves the cursor one cell to the left;
  without, it deletes the character under the cursor.
\<close>

definition deleteAt :: "nat \<Rightarrow> rune list \<Rightarrow> rune list" where
  "deleteAt x l = take x l @ drop (Suc x) l"

definition EditDelete :: "View \<Rightarrow> bool \<Rightarrow> View" where
  "EditDelete v back =
     (let x = originX v + cursorX v; y = originY v + cursorY v in
      if x <s 0 \<or> y <s 0 then v
      else if back then
        (if 0 <s x
         then (mapLine (nat (sint y)) (deleteAt (nat (sint x) - 1)) v)\<lparr>cursorX := cursorX v - 1\<rparr>
         else v)
      else mapLine (nat (sint y)) (deleteAt (nat (sint x))) v)"

text \<open>
  Modelled from the spec: \<^verbatim>\<open>View.MoveCursor\<close>, which is not part of the sources (section
  4.4, rules 7 and 8: move the cursor left, move the cursor right; section 8, the second
  prompt scenario: at the end of the text a move to the right leaves the cursor where it
  is, so that the next character is appended). The cursor moves by \<open>(dx, dy)\<close> when it
  stays within the window and comes to a cell of a line of the buffer or to the end of
  that line, in write mode to any cell; otherwise it stays where it is.
\<close>

definition MoveCursor :: "View \<Rightarrow> goint \<Rightarrow> goint \<Rightarrow> bool \<Rightarrow> View" where
  "MoveCursor v dx dy writeMode =
     (let cx = cursorX v + dx; cy = cursorY v + dy;
          x = originX v + cx; y = originY v + cy
      in if cx <s 0 \<or> cy <s 0 \<or> x <s 0 \<or> y <s 0 then v
         else if writeMode \<or>
                 (nat (sint y) < length (buffer v) \<and>
                  nat (sint x) \<le> length (buffer v ! nat (sint y)))
         then v\<lparr>cursorX := cx, cursorY := cy\<rparr>
         else v)"

subsection \<open>Formatting without operands\<close>

text \<open>
  \<^verbatim>\<open>fmt.Fprintf(w.view, w.text)\<close> and \<^verbatim>\<open>fmt.Fprintf(w.view, content)\<close> (widget.go, 81
  and 53) pass the text as the format, with no operand, so every \<^verbatim>\<open>%\<close> of the text
  starts a directive. The formatting is that of the Go library (\<^verbatim>\<open>doPrintf\<close> of package
  \<^verbatim>\<open>fmt\<close>), here with an empty list of operands: \<^verbatim>\<open>%%\<close> gives \<^verbatim>\<open>%\<close>, a verb finds
  no operand and gives \<^verbatim>\<open>%!v(MISSING)\<close>, an argument index is always out of range and
  gives \<^verbatim>\<open>%!v(BADINDEX)\<close>, a width or precision \<^verbatim>\<open>*\<close> gives \<^verbatim>\<open>%!(BADWIDTH)\<close> or
  \<^verbatim>\<open>%!(BADPREC)\<close>, and a directive that the format ends in gives \<^verbatim>\<open>%!(NOVERB)\<close>.
\<close>

definition percentBangString :: string where
  "percentBangString = ''%!''"

definition missingString :: string where
  "missingString = ''(MISSING)''"

definition badIndexString :: string where
  "badIndexString = ''(BADINDEX)''"

definition noVerbString :: string where
  "noVerbString = ''%!(NOVERB)''"

definition badWidthString :: string where
  "badWidthString = ''%!(BADWIDTH)''"

definition badPrecString :: string where
  "badPrecString = ''%!(BADPREC)''"

text \<open>The flags \<^verbatim>\<open>#\<close>, \<^verbatim>\<open>0\<close>, \<^verbatim>\<open>+\<close>, \<^verbatim>\<open>-\<close> and the blank, which are skipped.\<close>

definition isFlag :: "char \<Rightarrow> bool" where
  "isFlag c = (c = CHR ''#'' \<or> c = CHR ''0'' \<or> c = CHR ''+'' \<or> c = CHR ''-'' \<or> c = CHR '' '')"

definition isDigit :: "char \<Rightarrow> bool" where
  "isDigit c = (0x30 \<le> byte c \<and> byte c \<le> 0x39)"

text \<open>
  \<^verbatim>\<open>func parsenum(s string, start, end int) (num int, isnum bool, newi int)\<close> on the
  slice from \<^verbatim>\<open>start\<close> to \<^verbatim>\<open>end\<close>: whether a number was read, and what follows it.
  A number that has grown beyond \<open>10\<^sup>6\<close> when a further digit comes is refused
  (\<^verbatim>\<open>tooLarge\<close>) and the whole slice is skipped: the result \<open>None\<close>.
\<close>

fun parsenumFrom :: "nat \<Rightarrow> bool \<Rightarrow> string \<Rightarrow> (bool \<times> string) option" where
  "parsenumFrom num isnum [] = Some (isnum, [])"
| "parsenumFrom num isnum (c # cs) =
     (if isDigit c
      then (if 1000000 < num then None
            else parsenumFrom (num * 10 + (byte c - 0x30)) True cs)
      else Some (isnum, c # cs))"

definition parsenum :: "string \<Rightarrow> (bool \<times> string) option" where
  "parsenum s = parsenumFrom 0 False s"

text \<open>
  \<^verbatim>\<open>func parseArgNumber(format string) (index int, wid int, ok bool)\<close> on a format that
  starts with \<^verbatim>\<open>[\<close>: the width of the bracketed index and whether it is a number. The
  index itself is not needed: with no operand it is never in range.
\<close>

definition parseArgNumber :: "string \<Rightarrow> nat \<times> bool" where
  "parseArgNumber s =
     (if length s < 3 then (1, False)
      else
        (let inner = takeWhile (\<lambda>c. c \<noteq> CHR '']'') (tl s) in
         if length inner = length (tl s) then (1, False)
         else (case parsenum inner of
                 Some (True, []) \<Rightarrow> (length inner + 2, True)
               | _ \<Rightarrow> (length inner + 2, False))))"

text \<open>
  \<^verbatim>\<open>func (p *pp) argNumber(argNum int, format string, i int, numArgs int)\<close> with
  \<^verbatim>\<open>numArgs = 0\<close>: what follows the index, whether an index was found, and the flag
  \<^verbatim>\<open>p.goodArgNum\<close>, which every bracket clears.
\<close>

definition argNumber :: "string \<Rightarrow> bool \<Rightarrow> string \<times> bool \<times> bool" where
  "argNumber s good =
     (case s of
        [] \<Rightarrow> (s, False, good)
      | c # _ \<Rightarrow>
          if c = CHR ''[''
          then (let (wid, ok) = parseArgNumber s in (drop wid s, ok, False))
          else (s, False, good))"

text \<open>
  The width of a directive: the output, what follows the width, and the flags
  \<^verbatim>\<open>afterIndex\<close> and \<^verbatim>\<open>p.goodArgNum\<close>.
\<close>

definition widthPart :: "string \<Rightarrow> bool \<Rightarrow> bool \<Rightarrow> string \<times> string \<times> bool \<times> bool" where
  "widthPart s afterIndex good =
     (case s of
        [] \<Rightarrow> ([], [], afterIndex, good)
      | c # cs \<Rightarrow>
          if c = CHR ''*'' then (badWidthString, cs, False, good)
          else (case parsenum s of
                  None \<Rightarrow> ([], [], afterIndex, good)
                | Some (widPresent, r) \<Rightarrow> ([], r, afterIndex, good \<and> \<not> (afterIndex \<and> widPresent))))"

text \<open>The precision of a directive, likewise.\<close>

definition precPart :: "string \<Rightarrow> bool \<Rightarrow> bool \<Rightarrow> string \<times> string \<times> bool \<times> bool" where
  "precPart s afterIndex good =
     (case s of
        [] \<Rightarrow> ([], s, afterIndex, good)
      | c # cs \<Rightarrow>
          if c = CHR ''.'' then
            (let (r, afterIndex1, good1) = argNumber cs (good \<and> \<not> afterIndex) in
             case r of
               [] \<Rightarrow> ([], [], afterIndex1, good1)
             | d # ds \<Rightarrow>
                 if d = CHR ''*'' then (badPrecString, ds, False, good1)
                 else (case parsenum r of
                         None \<Rightarrow> ([], [], afterIndex1, good1)
                       | Some (_, r1) \<Rightarrow> ([], r1, afterIndex1, good1)))
          else ([], s, afterIndex, good))"

text \<open>
  One directive, from the byte after its \<^verbatim>\<open>%\<close>: the output, and what follows the verb;
  \<open>None\<close> when the format has ended before a verb.
\<close>

definition directive :: "string \<Rightarrow> string \<times> string option" where
  "directive s =
     (let s1 = dropWhile isFlag s;
          (s2, afterIndex2, good2) = argNumber s1 True;
          (out3, s3, afterIndex3, good3) = widthPart s2 afterIndex2 good2;
          (out4, s4, afterIndex4, good4) = precPart s3 afterIndex3 good3;
          (s5, good5) =
            (if afterIndex4 then (s4, good4)
             else (let (r, _, g) = argNumber s4 good4 in (r, g)))
      in if s5 = [] then (out3 @ out4 @ noVerbString, None)
         else
           (let (verb, size) = decodeRune s5 in
            (out3 @ out4 @
               (if verb = 0x25 then ''%''
                else if \<not> good5 then percentBangString @ encodeRune verb @ badIndexString
                else percentBangString @ encodeRune verb @ missingString),
             Some (drop size s5))))"

lemma parsenumFrom_length:
  "parsenumFrom num isnum s = Some (b, r) \<Longrightarrow> length r \<le> length s"
  by (induction num isnum s rule: parsenumFrom.induct) (auto split: if_splits)

lemma argNumber_length: "argNumber s good = (r, f, g) \<Longrightarrow> length r \<le> length s"
  by (auto simp: argNumber_def split: list.splits if_splits prod.splits)

lemma widthPart_length: "widthPart s a g = (out, r, a', g') \<Longrightarrow> length r \<le> length s"
  by (auto simp: widthPart_def parsenum_def split: list.splits if_splits option.splits
      dest: parsenumFrom_length)

lemma precPart_length: "precPart s a g = (out, r, a', g') \<Longrightarrow> length r \<le> length s"
  by (auto simp: precPart_def parsenum_def split: list.splits if_splits option.splits prod.splits
      dest!: parsenumFrom_length argNumber_length)

lemma directive_length: "directive s = (out, Some r) \<Longrightarrow> length r \<le> length s"
proof -
  assume d: "directive s = (out, Some r)"
  obtain s2 a2 g2 where 2: "argNumber (dropWhile isFlag s) True = (s2, a2, g2)"
    by (cases "argNumber (dropWhile isFlag s) True") auto
  obtain o3 s3 a3 g3 where 3: "widthPart s2 a2 g2 = (o3, s3, a3, g3)"
    by (cases "widthPart s2 a2 g2") auto
  obtain o4 s4 a4 g4 where 4: "precPart s3 a3 g3 = (o4, s4, a4, g4)"
    by (cases "precPart s3 a3 g3") auto
  obtain s5 a5 g5 where 5: "argNumber s4 g4 = (s5, a5, g5)"
    by (cases "argNumber s4 g4") auto
  have "length (dropWhile isFlag s) \<le> length s"
    by (rule length_dropWhile_le)
  moreover have "length s2 \<le> length (dropWhile isFlag s)"
    by (rule argNumber_length [OF 2])
  moreover have "length s3 \<le> length s2"
    by (rule widthPart_length [OF 3])
  moreover have "length s4 \<le> length s3"
    by (rule precPart_length [OF 4])
  moreover have "length s5 \<le> length s4"
    by (rule argNumber_length [OF 5])
  moreover have "length r \<le> length s4"
    using d 2 3 4 5 \<open>length s5 \<le> length s4\<close>
    by (auto simp: directive_def Let_def split: if_splits prod.splits)
  ultimately show ?thesis
    by linarith
qed

text \<open>
  \<^verbatim>\<open>func (p *pp) doPrintf(format string, a []any)\<close> with no operand: the text that
  \<^verbatim>\<open>Fprintf\<close> writes for a format. The bytes before a \<^verbatim>\<open>%\<close> are copied.
\<close>

function doPrintf :: "string \<Rightarrow> string" where
  "doPrintf s =
     (let lit = takeWhile (\<lambda>c. c \<noteq> CHR ''%'') s in
      case dropWhile (\<lambda>c. c \<noteq> CHR ''%'') s of
        [] \<Rightarrow> lit
      | _ # r \<Rightarrow>
          (case directive r of
             (out, None) \<Rightarrow> lit @ out
           | (out, Some rest) \<Rightarrow> lit @ out @ doPrintf rest))"
  by pat_completeness auto

termination doPrintf
proof (relation "measure length")
  show "wf (measure length)"
    by simp
next
  fix s :: string and lit x21 r x y rest
  assume "dropWhile (\<lambda>c. c \<noteq> CHR ''%'') s = x21 # r" and "(x, y) = directive r" and "y = Some rest"
  then have "length rest \<le> length r" and "length (x21 # r) \<le> length s"
    using directive_length [of r x rest] length_dropWhile_le [of "\<lambda>c. c \<noteq> CHR ''%''" s]
    by auto
  then show "(rest, s) \<in> measure length"
    by simp
qed

declare doPrintf.simps [simp del]

text \<open>
  \<^verbatim>\<open>fmt.Fprintf(view, format)\<close>: the formatted text is written to the surface
  (\<^verbatim>\<open>View.Write\<close>).
\<close>

definition Fprintf :: "View \<Rightarrow> string \<Rightarrow> View" where
  "Fprintf v s = Write v (doPrintf s)"

section \<open>The prompt editor\<close>

text \<open>
  The keys of the library that the editor tests are distinct constants; \<open>KeyOther\<close> is
  every other key code. A modifier is a byte, \<open>0\<close> for none.
\<close>

datatype Key =
    KeySpace | KeyBackspace | KeyBackspace2 | KeyDelete | KeyInsert | KeyEnter
  | KeyEsc | KeyCtrlG | KeyArrowDown | KeyArrowUp | KeyArrowLeft | KeyArrowRight
  | KeyOther nat

type_synonym Modifier = "8 word"

text \<open>\<^verbatim>\<open>func getFirstLine(s string) string\<close> (widget.go, 373-381).\<close>

definition getFirstLine :: "string \<Rightarrow> string" where
  "getFirstLine s = takeWhile (\<lambda>c. c \<noteq> CHR 0x0A) s"

text \<open>The slice \<^verbatim>\<open>content[offset:]\<close>, which panics when the offset is out of range.\<close>

definition sliceFrom :: "string \<Rightarrow> goint \<Rightarrow> panic + string" where
  "sliceFrom content offset =
     (if offset <s 0 \<or> len content <s offset then Inl SliceBoundsOutOfRange
      else Inr (drop (nat (sint offset)) content))"

text \<open>
  The function \<^verbatim>\<open>promptEditor\<close> that \<^verbatim>\<open>PromptEditor\<close> builds (widget.go, 318-371).
  The closure captures \<^verbatim>\<open>offset\<close> and may assign to it: the offset is an argument and
  the first component of the result. The second component is the view after the call, the
  third is \<^verbatim>\<open>consumed\<close>, the fourth the arguments of the call of \<^verbatim>\<open>callback\<close>, if it
  was called. The parameter \<^verbatim>\<open>mod\<close> is written \<open>md\<close>, the variable \<^verbatim>\<open>done\<close> \<open>dn\<close>.
\<close>

definition promptEditor ::
  "goint \<Rightarrow> View \<Rightarrow> Key \<Rightarrow> rune \<Rightarrow> Modifier
    \<Rightarrow> panic + (goint \<times> View \<times> bool \<times> (bool \<times> string) option)" where
  "promptEditor offset v key ch md =
     (let (cx, _) = Cursor v;
          (v1, cancel, dn, consumed) =
            (if ch \<noteq> 0 \<and> md = 0 then (EditWrite v ch, False, False, True)
             else if key = KeySpace then (EditWrite v 0x20, False, False, True)
             else if key = KeyBackspace \<or> key = KeyBackspace2 then
               (if offset <s cx then (EditDelete v True, False, False, True)
                else (v, True, False, True))
             else if key = KeyDelete then (EditDelete v False, False, False, True)
             else if key = KeyInsert then (v, False, False, True)
             else if key = KeyEnter then (v, False, True, True)
             else if key = KeyEsc \<or> key = KeyCtrlG then (v, True, False, True)
             else if key = KeyArrowDown then (v, False, False, True)
             else if key = KeyArrowUp then (v, False, False, True)
             else if key = KeyArrowLeft then
               ((if offset <s cx then MoveCursor v (- 1) 0 False else v), False, False, True)
             else if key = KeyArrowRight then (MoveCursor v 1 0 False, False, False, True)
             else (v, False, False, False))
      in if dn \<or> cancel then
           (let content = TrimSpace (getFirstLine (Buffer v1));
                offset1 = (if len content <s offset then len content else offset)
            in case sliceFrom content offset1 of
                 Inl p \<Rightarrow> Inl p
               | Inr t \<Rightarrow> Inr (offset1, v1, consumed, Some (dn, t)))
         else Inr (offset, v1, consumed, None))"

section \<open>TextWidget\<close>

text \<open>
  \<^verbatim>\<open>type TextWidget struct\<close> (widget.go, 11-16), without the two colours; the fields
  \<^verbatim>\<open>view\<close> and \<^verbatim>\<open>text\<close> are written \<open>textView\<close> and \<open>widgetText\<close>.
\<close>

record TextWidget =
  textView :: "View option"
  widgetText :: string

definition render :: "TextWidget \<Rightarrow> TextWidget" where
  "render w =
     (case textView w of
        Some v \<Rightarrow> w\<lparr>textView := Some (Fprintf (Clear v) (widgetText w))\<rparr>
      | None \<Rightarrow> w)"

definition SetText :: "TextWidget \<Rightarrow> string \<Rightarrow> TextWidget" where
  "SetText w t = render (w\<lparr>widgetText := t\<rparr>)"

definition setEditor :: "TextWidget \<Rightarrow> goint option \<Rightarrow> TextWidget" where
  "setEditor w e =
     (case textView w of
        Some v \<Rightarrow> w\<lparr>textView := Some (v\<lparr>Editable := (e \<noteq> None), Editor := e\<rparr>)\<rparr>
      | None \<Rightarrow> w)"

text \<open>
  \<^verbatim>\<open>func (w *TextWidget) SetPrompt(g, prefix, content, callback) error\<close>
  (widget.go, 41-65), without the focus and the cursor flag of the \<^verbatim>\<open>Gui\<close>. The editor
  is installed with the offset \<^verbatim>\<open>len(prefix)\<close>.
\<close>

definition SetPrompt :: "TextWidget \<Rightarrow> string \<Rightarrow> string \<Rightarrow> error option \<times> TextWidget" where
  "SetPrompt w prefix content =
     (case textView w of
        None \<Rightarrow> (None, w)
      | Some _ \<Rightarrow>
          (let w1 = SetText w prefix;
               w2 = w1\<lparr>textView := map_option (\<lambda>v. Fprintf v content) (textView w1)\<rparr>;
               w3 = setEditor w2 (Some (len prefix))
           in case textView w3 of
                None \<Rightarrow> (None, w3)
              | Some v \<Rightarrow>
                  (let (e, v') = SetCursor v (len prefix + len content) 0
                   in (e, w3\<lparr>textView := Some v'\<rparr>))))"

text \<open>
  Modelled from the spec: the dispatch of a key event by the host, which is not part of
  the sources: the event is handed to the editor installed on the surface of the widget,
  if the surface is editable (sections 3 and 4.4). When the editor calls its callback, that is the wrapper that
  \<^verbatim>\<open>SetPrompt\<close> has built (widget.go, 55-60): it takes the editor off the surface and
  passes its two arguments on; otherwise the editor keeps its offset. The result holds the
  widget, \<^verbatim>\<open>consumed\<close> and the arguments of the callback, if it was called.
\<close>

definition keyEvent ::
  "TextWidget \<Rightarrow> Key \<times> rune \<times> Modifier \<Rightarrow> panic + (TextWidget \<times> bool \<times> (bool \<times> string) option)" where
  "keyEvent w ev =
     (case textView w of
        None \<Rightarrow> Inr (w, False, None)
      | Some v \<Rightarrow>
          (case (if Editable v then Editor v else None) of
             None \<Rightarrow> Inr (w, False, None)
           | Some offset \<Rightarrow>
               (case ev of (key, ch, md) \<Rightarrow>
                  (case promptEditor offset v key ch md of
                     Inl p \<Rightarrow> Inl p
                   | Inr (offset1, v1, consumed, None) \<Rightarrow>
                       Inr (w\<lparr>textView := Some (v1\<lparr>Editor := Some offset1\<rparr>)\<rparr>, consumed, None)
                   | Inr (offset1, v1, consumed, Some r) \<Rightarrow>
                       Inr (setEditor (w\<lparr>textView := Some v1\<rparr>) None, consumed, Some r)))))"

text \<open>A sequence of key events; the calls of the callback are collected in order.\<close>

fun keyEvents ::
  "TextWidget \<Rightarrow> (Key \<times> rune \<times> Modifier) list \<Rightarrow> panic + (TextWidget \<times> (bool \<times> string) list)" where
  "keyEvents w [] = Inr (w, [])"
| "keyEvents w (ev # evs) =
     (case keyEvent w ev of
        Inl p \<Rightarrow> Inl p
      | Inr (w1, _, r) \<Rightarrow>
          (case keyEvents w1 evs of
             Inl p \<Rightarrow> Inl p
           | Inr (w2, rs) \<Rightarrow> Inr (w2, (case r of None \<Rightarrow> [] | Some x \<Rightarrow> [x]) @ rs)))"

section \<open>Sequences of steps, and the state they keep\<close>

text \<open>The four steps of a \<^verbatim>\<open>ScrollWidget\<close>; \<open>doStep\<close> gives the widget after the call.\<close>

datatype step = StepNextLine | StepPreviousLine | StepNextPage | StepPreviousPage

fun doStep :: "ScrollWidget \<Rightarrow> step \<Rightarrow> ScrollWidget" where
  "doStep w StepNextLine = snd (NextLine w)"
| "doStep w StepPreviousLine = snd (PreviousLine w)"
| "doStep w StepNextPage = snd (NextPage w)"
| "doStep w StepPreviousPage = snd (PreviousPage w)"

text \<open>
  The selected line is within the bound: \<open>0 \<le> Current() < max\<close> when \<open>max > 0\<close>, and
  \<open>Current() = 0\<close> when \<open>max = 0\<close>.
\<close>

definition in_bounds :: "ScrollWidget \<Rightarrow> bool" where
  "in_bounds w =
     ((0 <s maxl w \<longrightarrow> 0 \<le>s Current w \<and> Current w <s maxl w) \<and>
      (maxl w = 0 \<longrightarrow> Current w = 0))"

text \<open>The line that a view shows as selected: origin row + cursor row, as an integer.\<close>

definition position :: "View \<Rightarrow> int" where
  "position v = sint (originY v) + sint (cursorY v)"

text \<open>
  The selected line of the widget is the position of its view, whose origin row and cursor
  row are not negative. A widget without a view is in this state whatever it holds.
\<close>

definition synced :: "ScrollWidget \<Rightarrow> bool" where
  "synced w =
     (case view w of
        None \<Rightarrow> True
      | Some v \<Rightarrow> 0 \<le>s originY v \<and> 0 \<le>s cursorY v \<and> sint (current w) = position v)"

definition consistent :: "ScrollWidget \<Rightarrow> bool" where
  "consistent w = (0 \<le>s maxl w \<and> in_bounds w \<and> synced w)"

section \<open>Signed arithmetic on 64-bit words\<close>

lemma sint_add64:
  "- (2 ^ 63) \<le> sint a + sint b \<Longrightarrow> sint a + sint b < 2 ^ 63
    \<Longrightarrow> sint (a + b :: goint) = sint a + sint b"
  by (simp add: sint_word_ariths signed_take_bit_int_eq_self)

lemma sint_sub64:
  "- (2 ^ 63) \<le> sint a - sint b \<Longrightarrow> sint a - sint b < 2 ^ 63
    \<Longrightarrow> sint (a - b :: goint) = sint a - sint b"
  by (simp add: sint_word_ariths signed_take_bit_int_eq_self)

lemma sint_neg64: "sint a \<noteq> - (2 ^ 63) \<Longrightarrow> sint (- a :: goint) = - sint a"
  using sint_ge [of a] sint_lt [of a]
  by (simp add: sint_word_ariths signed_take_bit_int_eq_self)

lemma sint_bounds64: "- (2 ^ 63) \<le> sint (a :: goint)" "sint (a :: goint) < 2 ^ 63"
  using sint_ge [of a] sint_lt [of a] by simp_all

section \<open>Errors of a move\<close>

lemma applyCursor_error:
  "applyCursor v x y d = (Some e, v') \<Longrightarrow> e = invalid_point"
  by (auto simp: applyCursor_def SetCursor_def Size_def Let_def split: if_splits)

lemma SetOrigin_error:
  "SetOrigin v x y = (Some e, v') \<Longrightarrow> e = invalid_point"
  by (auto simp: SetOrigin_def Let_def split: if_splits)

lemma applyDelta_error:
  assumes "applyDelta v m d = (Some e, v')"
  shows "e = invalid_point"
  using assms
  by (auto simp: applyDelta_def Size_def Origin_def Cursor_def Let_def
      split: if_splits prod.splits option.splits
      dest: applyCursor_error SetOrigin_error)

text \<open>
  An \<^verbatim>\<open>ErrAction\<close> that a move returns is "at top" or "at bottom" and carries its
  cause; what the surface reports is a plain error.
\<close>

lemma MoveLines_error_cause:
  assumes "fst (MoveLines vw c m d) = Some (ActionError e)"
  shows "err e \<noteq> None"
proof (cases vw)
  case None
  with assms show ?thesis by (simp add: MoveLines_def)
next
  case (Some v)
  show ?thesis
  proof (cases "clampDelta c m d")
    case (Inl a)
    then have "a = Error ''at top'' \<or> a = Error ''at bottom''"
      by (auto simp: clampDelta_def Let_def split: if_splits)
    moreover from assms Some Inl have "e = a"
      by (simp add: MoveLines_def)
    ultimately show ?thesis
      by (auto simp: Error_def)
  next
    case (Inr d')
    with assms Some obtain v' where "applyDelta v m d' = (Some (ActionError e), v')"
      by (auto simp: MoveLines_def split: if_splits prod.splits)
    then have "ActionError e = invalid_point"
      by (auto dest: applyDelta_error)
    then show ?thesis
      by (simp add: invalid_point_def)
  qed
qed

lemma step_error_cause:
  assumes "fst (HandleAction w a) = Some (ActionError e)"
    and "a \<in> {''next_line'', ''next_page'', ''prev_line'', ''prev_page''}"
  shows "err e \<noteq> None"
proof -
  have nl: "fst (NextLine w) = fst (MoveLines (view w) (current w) (maxl w) 1)"
    by (simp add: NextLine_def split: prod.splits)
  have pl: "fst (PreviousLine w) = fst (MoveLines (view w) (current w) (maxl w) (- 1))"
    by (simp add: PreviousLine_def split: prod.splits)
  have np: "fst (NextPage w) =
      (case view w of None \<Rightarrow> None
       | Some v \<Rightarrow> fst (MoveLines (view w) (current w) (maxl w) (sizeY v)))"
    by (simp add: NextPage_def Size_def split: prod.splits option.splits)
  have pp: "fst (PreviousPage w) =
      (case view w of None \<Rightarrow> None
       | Some v \<Rightarrow> fst (MoveLines (view w) (current w) (maxl w) (- sizeY v)))"
    by (simp add: PreviousPage_def Size_def split: prod.splits option.splits)
  from assms(2) consider "a = ''next_line''" | "a = ''next_page''" | "a = ''prev_line''"
    | "a = ''prev_page''"
    by blast
  then show ?thesis
  proof cases
    case 1
    with assms(1) nl show ?thesis
      by (simp add: HandleAction_def ActionNextLine_def MoveLines_error_cause)
  next
    case 2
    with assms(1) np show ?thesis
      by (auto simp: HandleAction_def ActionNextLine_def ActionNextPage_def
          split: option.splits dest: MoveLines_error_cause simp del: not_None_eq)
  next
    case 3
    with assms(1) pl show ?thesis
      by (simp add: HandleAction_def ActionNextLine_def ActionNextPage_def
          ActionPreviousLine_def MoveLines_error_cause)
  next
    case 4
    with assms(1) pp show ?thesis
      by (auto simp: HandleAction_def ActionNextLine_def ActionNextPage_def
          ActionPreviousLine_def ActionPreviousPage_def
          split: option.splits dest: MoveLines_error_cause simp del: not_None_eq)
  qed
qed

section \<open>Dispatch of actions\<close>

text \<open>
  Claim C9. \<^verbatim>\<open>HandleAction\<close> of a \<^verbatim>\<open>ScrollWidget\<close> maps each of the four action names
  \<^verbatim>\<open>next_line\<close>, \<^verbatim>\<open>next_page\<close>, \<^verbatim>\<open>prev_line\<close>, \<^verbatim>\<open>prev_page\<close> to its step, and gives
  for every other action the \<^verbatim>\<open>UnknownAction\<close> error and leaves the widget as it is. That
  error carries no cause, whereas every \<^verbatim>\<open>ErrAction\<close> that one of the four steps returns
  carries one. \<^verbatim>\<open>HandleAction\<close> of a \<^verbatim>\<open>ListWidget\<close> is that of its embedded
  \<^verbatim>\<open>ScrollWidget\<close>.
\<close>

theorem HandleAction_dispatch:
  "HandleAction w ''next_line'' = NextLine w \<and>
   HandleAction w ''next_page'' = NextPage w \<and>
   HandleAction w ''prev_line'' = PreviousLine w \<and>
   HandleAction w ''prev_page'' = PreviousPage w \<and>
   (a \<notin> {''next_line'', ''next_page'', ''prev_line'', ''prev_page''} \<longrightarrow>
      HandleAction w a = (Some (ActionError UnknownAction), w)) \<and>
   err UnknownAction = None \<and>
   (\<forall>e. a \<in> {''next_line'', ''next_page'', ''prev_line'', ''prev_page''} \<and>
        fst (HandleAction w a) = Some (ActionError e) \<longrightarrow> err e \<noteq> None) \<and>
   ListHandleAction l a
     = (fst (HandleAction (base l) a), l\<lparr>base := snd (HandleAction (base l) a)\<rparr>)"
proof -
  have 1: "HandleAction w ''next_line'' = NextLine w"
    by (simp add: HandleAction_def ActionNextLine_def)
  have 2: "HandleAction w ''next_page'' = NextPage w"
    by (simp add: HandleAction_def ActionNextLine_def ActionNextPage_def)
  have 3: "HandleAction w ''prev_line'' = PreviousLine w"
    by (simp add: HandleAction_def ActionNextLine_def ActionNextPage_def ActionPreviousLine_def)
  have 4: "HandleAction w ''prev_page'' = PreviousPage w"
    by (simp add: HandleAction_def ActionNextLine_def ActionNextPage_def ActionPreviousLine_def
        ActionPreviousPage_def)
  have 5: "a \<notin> {''next_line'', ''next_page'', ''prev_line'', ''prev_page''} \<longrightarrow>
      HandleAction w a = (Some (ActionError UnknownAction), w)"
    by (simp add: HandleAction_def ActionNextLine_def ActionNextPage_def ActionPreviousLine_def
        ActionPreviousPage_def)
  have 6: "err UnknownAction = None"
    by (simp add: UnknownAction_def)
  have 7: "\<forall>e. a \<in> {''next_line'', ''next_page'', ''prev_line'', ''prev_page''} \<and>
        fst (HandleAction w a) = Some (ActionError e) \<longrightarrow> err e \<noteq> None"
    using step_error_cause [of w a] by blast
  have 8: "ListHandleAction l a
     = (fst (HandleAction (base l) a), l\<lparr>base := snd (HandleAction (base l) a)\<rparr>)"
    by (simp add: ListHandleAction_def split: prod.splits)
  show ?thesis
    by (intro conjI 1 2 3 4 5 6 7 8)
qed

text \<open>
  The theorem at a widget bound to a new surface: the action \<^verbatim>\<open>quit\<close> is unknown, and
  \<^verbatim>\<open>prev_line\<close> on the first line fails with "at top", an error with a cause.
\<close>

theorem HandleAction_dispatch_witness:
  "''quit'' \<notin> {''next_line'', ''next_page'', ''prev_line'', ''prev_page''} \<and>
   HandleAction (SetView NewScrollWidget (Some (NewView 80 24))) ''quit''
     = (Some (ActionError UnknownAction), SetView NewScrollWidget (Some (NewView 80 24))) \<and>
   ''prev_line'' \<in> {''next_line'', ''next_page'', ''prev_line'', ''prev_page''} \<and>
   fst (HandleAction (SetView NewScrollWidget (Some (NewView 80 24))) ''prev_line'')
     = Some (ActionError (Error ''at top'')) \<and>
   err (Error ''at top'') \<noteq> None"
proof -
  let ?w = "SetView NewScrollWidget (Some (NewView 80 24))"
  have top: "fst (PreviousLine ?w) = Some (ActionError (Error ''at top''))"
    by (simp add: PreviousLine_def MoveLines_def clampDelta_def SetView_def NewScrollWidget_def
        word_sless_alt word_sle_eq)
  have q: "''quit'' \<notin> {''next_line'', ''next_page'', ''prev_line'', ''prev_page''}"
    by simp
  have p: "''prev_line'' \<in> {''next_line'', ''next_page'', ''prev_line'', ''prev_page''}"
    by simp
  note c2 = conjunct2
  have 1: "HandleAction ?w ''quit'' = (Some (ActionError UnknownAction), ?w)"
    by (rule mp [OF HandleAction_dispatch [of ?w "''quit''" undefined,
            THEN c2, THEN c2, THEN c2, THEN c2, THEN conjunct1] q])
  have 2: "HandleAction ?w ''prev_line'' = PreviousLine ?w"
    by (rule HandleAction_dispatch [of ?w "''prev_line''" undefined,
            THEN c2, THEN c2, THEN conjunct1])
  from 2 top have 4: "fst (HandleAction ?w ''prev_line'') = Some (ActionError (Error ''at top''))"
    by (simp only:)
  have 5: "err (Error ''at top'') \<noteq> None"
    by (rule mp [OF spec [OF HandleAction_dispatch [of ?w "''prev_line''" undefined,
            THEN c2, THEN c2, THEN c2, THEN c2, THEN c2, THEN c2, THEN conjunct1]]
          conjI [OF p 4]])
  show ?thesis
    by (intro conjI q 1 p 4 5)
qed

section \<open>The downward checks\<close>

text \<open>
  Claim C3. For a downward move (\<open>0 < d\<close>) the checks of \<^verbatim>\<open>MoveLines\<close> are those of the
  specification, in its order: first \<open>d\<close> is clamped to \<open>fromBottom = max - c\<close> when
  \<open>fromBottom > 0\<close> and \<open>d > fromBottom\<close>; second the call fails with "at bottom" when
  \<open>c + 1 \<ge> max\<close>; third the clamped \<open>d\<close> is clamped to \<open>max - c - 1\<close> when
  \<open>c + d \<ge> max\<close>. What \<^verbatim>\<open>MoveLines\<close> returns on a bound view is the error of the
  second step, or the move by the delta of the third.
\<close>

theorem downward_checks_in_order:
  assumes "0 <s d"
  shows "clampDelta c m d = spec_downward c m d \<and>
         (spec_second c m \<longrightarrow> clampDelta c m d = Inl (Error ''at bottom'')) \<and>
         (\<not> spec_second c m \<longrightarrow>
            clampDelta c m d = Inr (spec_third c m (spec_first c m d))) \<and>
         MoveLines (Some v) c m d =
           (case spec_downward c m d of
              Inl e \<Rightarrow> (Some (ActionError e), Some v)
            | Inr d' \<Rightarrow> if d' \<noteq> 0 then (let (e, v') = applyDelta v m d' in (e, Some v'))
                        else (None, Some v))"
proof -
  from assms have nd: "\<not> d <s 0"
    by (simp add: word_sless_alt)
  have 1: "clampDelta c m d = spec_downward c m d"
    using nd by (simp add: clampDelta_def spec_downward_def spec_first_def spec_second_def
        spec_third_def Let_def)
  have 2: "MoveLines (Some v) c m d =
           (case spec_downward c m d of
              Inl e \<Rightarrow> (Some (ActionError e), Some v)
            | Inr d' \<Rightarrow> if d' \<noteq> 0 then (let (e, v') = applyDelta v m d' in (e, Some v'))
                        else (None, Some v))"
    by (simp add: MoveLines_def 1)
  have 3: "spec_second c m \<longrightarrow> clampDelta c m d = Inl (Error ''at bottom'')"
    by (simp add: 1 spec_downward_def)
  have 4: "\<not> spec_second c m \<longrightarrow> clampDelta c m d = Inr (spec_third c m (spec_first c m d))"
    by (simp add: 1 spec_downward_def)
  show ?thesis
    by (intro conjI 1 2 3 4)
qed

text \<open>
  Two moves by 3 with \<open>max = 5\<close>. From line 4 the first step clamps the delta to 1 and
  the second fails; from line 3 the first step clamps it to 2 and the third to 1.
\<close>

theorem downward_checks_in_order_witness:
  "(0::goint) <s 3 \<and> spec_first 4 5 3 = 1 \<and> spec_second 4 5 \<and>
   clampDelta 4 5 3 = Inl (Error ''at bottom'') \<and>
   spec_first 3 5 3 = 2 \<and> \<not> spec_second 3 5 \<and> spec_third 3 5 2 = 1 \<and>
   clampDelta 3 5 3 = Inr 1"
proof -
  have d: "(0::goint) <s 3"
    by (simp add: word_sless_alt)
  have a: "spec_first 4 5 3 = 1" "spec_second 4 5"
    by (simp_all add: spec_first_def spec_second_def word_sless_alt word_sle_eq)
  have b: "spec_first 3 5 3 = 2" "\<not> spec_second 3 5" "spec_third 3 5 2 = 1"
    by (simp_all add: spec_first_def spec_second_def spec_third_def word_sless_alt word_sle_eq)
  have "spec_second 4 5 \<longrightarrow> clampDelta 4 5 3 = Inl (Error ''at bottom'')"
    using downward_checks_in_order [OF d, of 4 5 undefined] by (rule conjunct1 [OF conjunct2])
  with a have 1: "clampDelta 4 5 3 = Inl (Error ''at bottom'')"
    by (rule_tac mp)
  have "\<not> spec_second 3 5 \<longrightarrow> clampDelta 3 5 3 = Inr (spec_third 3 5 (spec_first 3 5 3))"
    using downward_checks_in_order [OF d, of 3 5 undefined]
    by (rule conjunct1 [OF conjunct2 [OF conjunct2]])
  with b have 2: "clampDelta 3 5 3 = Inr 1"
    by simp
  from d a b 1 2 show ?thesis
    by simp
qed

section \<open>A widget without a view\<close>

lemma MoveLines_None: "MoveLines None c m d = (None, None)"
  by (simp add: MoveLines_def)

lemma GetLine_None: "GetLine None = 0"
  by (simp add: GetLine_def)

text \<open>
  Claim C10, as amended. On a \<^verbatim>\<open>ScrollWidget\<close> with no view bound, \<^verbatim>\<open>NextLine\<close>,
  \<^verbatim>\<open>PreviousLine\<close> and \<^verbatim>\<open>SetCurrent(idx)\<close>, for any \<open>idx\<close> and any \<open>max\<close>, return
  \<^verbatim>\<open>nil\<close> and set the selected line to 0, since they read the position back from the
  absent view. \<^verbatim>\<open>NextPage\<close> and \<^verbatim>\<open>PreviousPage\<close> return \<^verbatim>\<open>nil\<close> too, but they do
  nothing at all without a view: the selected line stays what it was.
\<close>

theorem no_view_movement:
  assumes "view w = None"
  shows "NextLine w = (None, w\<lparr>current := 0\<rparr>) \<and>
         PreviousLine w = (None, w\<lparr>current := 0\<rparr>) \<and>
         SetCurrent w idx = (None, w\<lparr>current := 0\<rparr>) \<and>
         NextPage w = (None, w) \<and>
         PreviousPage w = (None, w)"
proof -
  have eq: "w\<lparr>view := None, current := 0\<rparr> = w\<lparr>current := 0\<rparr>"
    using assms by (cases w) simp
  show ?thesis
    using assms eq
    by (simp add: NextLine_def PreviousLine_def SetCurrent_def NextPage_def PreviousPage_def
        MoveLines_None GetLine_None)
qed

text \<open>A widget without a view that holds line 7 of 10.\<close>

theorem no_view_movement_witness:
  "view \<lparr>Highlight = False, view = None, maxl = 10, current = 7\<rparr> = None \<and>
   SetCurrent \<lparr>Highlight = False, view = None, maxl = 10, current = 7\<rparr> 3
     = (None, \<lparr>Highlight = False, view = None, maxl = 10, current = 0\<rparr>) \<and>
   NextPage \<lparr>Highlight = False, view = None, maxl = 10, current = 7\<rparr>
     = (None, \<lparr>Highlight = False, view = None, maxl = 10, current = 7\<rparr>)"
proof -
  let ?w = "\<lparr>Highlight = False, view = None, maxl = 10, current = 7\<rparr>"
  have v: "view ?w = None"
    by simp
  from no_view_movement [OF v, of 3] show ?thesis
    by simp
qed

text \<open>
  The claim as it was stated fails on a widget that has moved two lines down on a view and
  has then lost the view (\<^verbatim>\<open>SetView(nil)\<close>): it holds line 2, and after \<^verbatim>\<open>NextPage\<close>
  the selected line is still 2, not 0.
\<close>

theorem no_view_NextPage_counterexample:
  "view (SetView (doStep (doStep (SetMax (SetView NewScrollWidget (Some (NewView 80 24))) 10)
                   StepNextLine) StepNextLine) None) = None \<and>
   fst (NextPage (SetView (doStep (doStep (SetMax (SetView NewScrollWidget (Some (NewView 80 24))) 10)
                   StepNextLine) StepNextLine) None)) = None \<and>
   Current (snd (NextPage (SetView (doStep (doStep
                   (SetMax (SetView NewScrollWidget (Some (NewView 80 24))) 10)
                   StepNextLine) StepNextLine) None))) \<noteq> 0"
  by (simp add: SetView_def SetMax_def clampCurrent_def NewScrollWidget_def NextLine_def
      NextPage_def Current_def MoveLines_def clampDelta_def applyDelta_def applyCursor_def
      SetCursor_def Size_def Origin_def Cursor_def GetLine_def NewView_def Let_def
      word_sless_alt word_sle_eq)

section \<open>Keys that the prompt editor does not handle\<close>

text \<open>
  Claim C7, as amended. A key event to which the first rule does not apply (the character
  is 0 or a modifier is held) and whose key is none of those that the editor tests is not
  consumed, and changes nothing. The keys that the editor tests are those of the rules of
  the specification and three more: Insert, ArrowDown and ArrowUp have a case of their own
  with an empty body, so that they are consumed and change nothing.
\<close>

theorem other_keys:
  assumes "\<not> (ch \<noteq> 0 \<and> md = 0)"
  shows "(key \<notin> {KeySpace, KeyBackspace, KeyBackspace2, KeyDelete, KeyInsert, KeyEnter, KeyEsc,
                  KeyCtrlG, KeyArrowDown, KeyArrowUp, KeyArrowLeft, KeyArrowRight} \<longrightarrow>
            promptEditor offset v key ch md = Inr (offset, v, False, None)) \<and>
         (key \<in> {KeyInsert, KeyArrowDown, KeyArrowUp} \<longrightarrow>
            promptEditor offset v key ch md = Inr (offset, v, True, None))"
  using assms by (auto simp: promptEditor_def Cursor_def)

theorem other_keys_witness:
  "\<not> ((0::rune) \<noteq> 0 \<and> (0::Modifier) = 0) \<and>
   KeyOther 0xFFFF \<notin> {KeySpace, KeyBackspace, KeyBackspace2, KeyDelete, KeyInsert, KeyEnter,
                       KeyEsc, KeyCtrlG, KeyArrowDown, KeyArrowUp, KeyArrowLeft, KeyArrowRight} \<and>
   promptEditor 8 (NewView 80 1) (KeyOther 0xFFFF) 0 0 = Inr (8, NewView 80 1, False, None) \<and>
   KeyArrowUp \<in> {KeyInsert, KeyArrowDown, KeyArrowUp} \<and>
   promptEditor 8 (NewView 80 1) KeyArrowUp 0 0 = Inr (8, NewView 80 1, True, None)"
proof -
  have h: "\<not> ((0::rune) \<noteq> 0 \<and> (0::Modifier) = 0)"
    by simp
  from other_keys [OF h, of "KeyOther 0xFFFF" 8 "NewView 80 1"]
    other_keys [OF h, of KeyArrowUp 8 "NewView 80 1"]
  show ?thesis
    by simp
qed

text \<open>
  The claim as it was stated fails at the Insert key: it matches none of the rules that the
  claim lists, and the editor reports it as consumed.
\<close>

theorem insert_key_consumed_counterexample:
  "KeyInsert \<notin> {KeySpace, KeyBackspace, KeyBackspace2, KeyDelete, KeyEnter, KeyEsc, KeyCtrlG,
                 KeyArrowLeft, KeyArrowRight} \<and>
   \<not> ((0::rune) \<noteq> 0 \<and> (0::Modifier) = 0) \<and>
   promptEditor 8 (NewView 80 1) KeyInsert 0 0 = Inr (8, NewView 80 1, True, None)"
  by (simp add: promptEditor_def Cursor_def)

section \<open>Steps at the first and at the last line\<close>

text \<open>
  Claim C4, as amended. On a \<^verbatim>\<open>ScrollWidget\<close> bound to a view, \<^verbatim>\<open>PreviousLine\<close> at
  \<open>current = 0\<close> fails with "at top" and \<^verbatim>\<open>NextLine\<close> at \<open>current = max - 1\<close> fails
  with "at bottom". In both cases the surface is left as it is, and no \<^verbatim>\<open>SetOrigin\<close> or
  \<^verbatim>\<open>SetCursor\<close> call is issued on it. The selected line is then read back from the
  surface: it becomes origin row + cursor row, so it is unchanged when it was equal to that
  before the call.
\<close>

theorem boundary_steps:
  assumes "view w = Some v"
  shows "(current w = 0 \<longrightarrow>
            PreviousLine w
              = (Some (ActionError (Error ''at top'')), w\<lparr>current := GetLine (Some v)\<rparr>)) \<and>
         (current w = maxl w - 1 \<longrightarrow>
            NextLine w
              = (Some (ActionError (Error ''at bottom'')), w\<lparr>current := GetLine (Some v)\<rparr>)) \<and>
         view (w\<lparr>current := GetLine (Some v)\<rparr>) = Some v \<and>
         (current w = GetLine (Some v) \<longrightarrow> w\<lparr>current := GetLine (Some v)\<rparr> = w)"
proof -
  have eq: "w\<lparr>view := Some v, current := c\<rparr> = w\<lparr>current := c\<rparr>" for c
    using assms by (cases w) simp
  have 1: "current w = 0 \<longrightarrow>
            PreviousLine w
              = (Some (ActionError (Error ''at top'')), w\<lparr>current := GetLine (Some v)\<rparr>)"
    using assms eq
    by (simp add: PreviousLine_def MoveLines_def clampDelta_def word_sless_alt word_sle_eq)
  have 2: "current w = maxl w - 1 \<longrightarrow>
            NextLine w
              = (Some (ActionError (Error ''at bottom'')), w\<lparr>current := GetLine (Some v)\<rparr>)"
    using assms eq
    by (simp add: NextLine_def MoveLines_def clampDelta_def word_sless_alt word_sle_eq Let_def)
  have 3: "view (w\<lparr>current := GetLine (Some v)\<rparr>) = Some v"
    using assms by simp
  have 4: "current w = GetLine (Some v) \<longrightarrow> w\<lparr>current := GetLine (Some v)\<rparr> = w"
    by (cases w) auto
  show ?thesis
    by (intro conjI 1 2 3 4)
qed

text \<open>A list of one line on a new surface: line 0 is the first line and the last.\<close>

theorem boundary_steps_witness:
  "view \<lparr>Highlight = False, view = Some (NewView 80 24), maxl = 1, current = 0\<rparr>
     = Some (NewView 80 24) \<and>
   current \<lparr>Highlight = False, view = Some (NewView 80 24), maxl = 1, current = 0\<rparr> = 0 \<and>
   current \<lparr>Highlight = False, view = Some (NewView 80 24), maxl = 1, current = 0\<rparr>
     = maxl \<lparr>Highlight = False, view = Some (NewView 80 24), maxl = 1, current = 0\<rparr> - 1 \<and>
   current \<lparr>Highlight = False, view = Some (NewView 80 24), maxl = 1, current = 0\<rparr>
     = GetLine (Some (NewView 80 24)) \<and>
   PreviousLine \<lparr>Highlight = False, view = Some (NewView 80 24), maxl = 1, current = 0\<rparr>
     = (Some (ActionError (Error ''at top'')),
        \<lparr>Highlight = False, view = Some (NewView 80 24), maxl = 1, current = 0\<rparr>) \<and>
   NextLine \<lparr>Highlight = False, view = Some (NewView 80 24), maxl = 1, current = 0\<rparr>
     = (Some (ActionError (Error ''at bottom'')),
        \<lparr>Highlight = False, view = Some (NewView 80 24), maxl = 1, current = 0\<rparr>)"
proof -
  let ?w = "\<lparr>Highlight = False, view = Some (NewView 80 24), maxl = 1, current = 0\<rparr>"
  have a: "view ?w = Some (NewView 80 24)"
    by simp
  have g: "GetLine (Some (NewView 80 24)) = 0"
    by (simp add: GetLine_def NewView_def Origin_def Cursor_def)
  from boundary_steps [OF a] g show ?thesis
    by simp
qed

text \<open>
  The claim as it was stated fails on a new widget that is bound to a view whose origin has
  been set to line 5 (\<^verbatim>\<open>view.SetOrigin(0, 5)\<close>) before: it holds line 0,
  \<^verbatim>\<open>PreviousLine\<close> fails with "at top", and the selected line becomes 5.
\<close>

theorem boundary_steps_counterexample:
  "view (SetMax (SetView NewScrollWidget (Some (snd (SetOrigin (NewView 80 24) 0 5)))) 3) \<noteq> None \<and>
   0 <s maxl (SetMax (SetView NewScrollWidget (Some (snd (SetOrigin (NewView 80 24) 0 5)))) 3) \<and>
   current (SetMax (SetView NewScrollWidget (Some (snd (SetOrigin (NewView 80 24) 0 5)))) 3) = 0 \<and>
   fst (PreviousLine
          (SetMax (SetView NewScrollWidget (Some (snd (SetOrigin (NewView 80 24) 0 5)))) 3))
     = Some (ActionError (Error ''at top'')) \<and>
   Current (snd (PreviousLine
          (SetMax (SetView NewScrollWidget (Some (snd (SetOrigin (NewView 80 24) 0 5)))) 3)))
     \<noteq> Current (SetMax (SetView NewScrollWidget (Some (snd (SetOrigin (NewView 80 24) 0 5)))) 3)"
  by (simp add: SetMax_def SetView_def clampCurrent_def NewScrollWidget_def SetOrigin_def
      PreviousLine_def Current_def MoveLines_def clampDelta_def GetLine_def NewView_def
      Origin_def Cursor_def Let_def word_sless_alt word_sle_eq)

section \<open>Selecting the selected line\<close>

lemma clampDelta_zero:
  assumes "0 <s m" and "c <s m - 1"
  shows "clampDelta c m 0 = Inr 0"
  using assms sint_bounds64 [of c] sint_bounds64 [of m]
  by (auto simp: clampDelta_def Let_def word_sless_alt word_sle_eq sint_add64 sint_sub64)

text \<open>
  Claim C1, as amended. On a \<^verbatim>\<open>ScrollWidget\<close> bound to a view, with \<open>max > 0\<close> and
  \<open>Current() < max - 1\<close>, the call \<^verbatim>\<open>SetCurrent(Current())\<close> returns no error and leaves
  the surface as it is: no \<^verbatim>\<open>SetOrigin\<close> or \<^verbatim>\<open>SetCursor\<close> call is issued. The selected
  line is then read back from the surface: it becomes origin row + cursor row, so the
  widget is unchanged when the selected line was equal to that before the call.
\<close>

theorem SetCurrent_Current:
  assumes "view w = Some v" and "0 <s maxl w" and "current w <s maxl w - 1"
  shows "SetCurrent w (Current w) = (None, w\<lparr>current := GetLine (Some v)\<rparr>) \<and>
         view (snd (SetCurrent w (Current w))) = Some v \<and>
         (current w = GetLine (Some v) \<longrightarrow> snd (SetCurrent w (Current w)) = w)"
proof -
  have eq: "w\<lparr>view := Some v, current := c\<rparr> = w\<lparr>current := c\<rparr>" for c
    using assms(1) by (cases w) simp
  have 1: "SetCurrent w (Current w) = (None, w\<lparr>current := GetLine (Some v)\<rparr>)"
    using assms(1) eq clampDelta_zero [OF assms(2,3)]
    by (simp add: SetCurrent_def Current_def MoveLines_def)
  have 2: "current w = GetLine (Some v) \<longrightarrow> w\<lparr>current := GetLine (Some v)\<rparr> = w"
    by (cases w) auto
  from 1 2 assms(1) show ?thesis
    by simp
qed

theorem SetCurrent_Current_witness:
  "view \<lparr>Highlight = False, view = Some (NewView 80 24), maxl = 5, current = 0\<rparr>
     = Some (NewView 80 24) \<and>
   (0::goint) <s 5 \<and> (0::goint) <s 5 - 1 \<and>
   current \<lparr>Highlight = False, view = Some (NewView 80 24), maxl = 5, current = 0\<rparr>
     = GetLine (Some (NewView 80 24)) \<and>
   SetCurrent \<lparr>Highlight = False, view = Some (NewView 80 24), maxl = 5, current = 0\<rparr> 0
     = (None, \<lparr>Highlight = False, view = Some (NewView 80 24), maxl = 5, current = 0\<rparr>)"
proof -
  let ?w = "\<lparr>Highlight = False, view = Some (NewView 80 24), maxl = 5, current = 0\<rparr>"
  have a: "view ?w = Some (NewView 80 24)"
    by simp
  have b: "0 <s maxl ?w" and c: "current ?w <s maxl ?w - 1"
    by (simp_all add: word_sless_alt)
  have g: "GetLine (Some (NewView 80 24)) = 0"
    by (simp add: GetLine_def NewView_def Origin_def Cursor_def)
  from SetCurrent_Current [OF a b c] g show ?thesis
    by (simp add: Current_def word_sless_alt)
qed

text \<open>
  The claim as it was stated fails on a new widget that is bound to a view whose origin has
  been set to line 2 (\<^verbatim>\<open>view.SetOrigin(0, 2)\<close>) before: it holds line 0 of 5,
  \<^verbatim>\<open>SetCurrent(0)\<close> returns no error, and the selected line becomes 2.
\<close>

theorem SetCurrent_Current_counterexample:
  "view (SetMax (SetView NewScrollWidget (Some (snd (SetOrigin (NewView 80 24) 0 2)))) 5) \<noteq> None \<and>
   0 <s maxl (SetMax (SetView NewScrollWidget (Some (snd (SetOrigin (NewView 80 24) 0 2)))) 5) \<and>
   0 \<le>s Current (SetMax (SetView NewScrollWidget (Some (snd (SetOrigin (NewView 80 24) 0 2)))) 5) \<and>
   Current (SetMax (SetView NewScrollWidget (Some (snd (SetOrigin (NewView 80 24) 0 2)))) 5)
     <s maxl (SetMax (SetView NewScrollWidget (Some (snd (SetOrigin (NewView 80 24) 0 2)))) 5) \<and>
   fst (SetCurrent
          (SetMax (SetView NewScrollWidget (Some (snd (SetOrigin (NewView 80 24) 0 2)))) 5)
          (Current (SetMax (SetView NewScrollWidget (Some (snd (SetOrigin (NewView 80 24) 0 2)))) 5)))
     = None \<and>
   Current (snd (SetCurrent
          (SetMax (SetView NewScrollWidget (Some (snd (SetOrigin (NewView 80 24) 0 2)))) 5)
          (Current (SetMax (SetView NewScrollWidget (Some (snd (SetOrigin (NewView 80 24) 0 2)))) 5))))
     \<noteq> Current (SetMax (SetView NewScrollWidget (Some (snd (SetOrigin (NewView 80 24) 0 2)))) 5)"
  by (simp add: SetMax_def SetView_def clampCurrent_def NewScrollWidget_def SetOrigin_def
      SetCurrent_def Current_def MoveLines_def clampDelta_def GetLine_def NewView_def
      Origin_def Cursor_def Let_def word_sless_alt word_sle_eq)

text \<open>
  On the last line the same call takes the branch of the downward moves, since its delta 0
  is not negative, and returns "at bottom": so on a new widget with one line.
\<close>

lemma SetCurrent_last_line:
  "SetMax (SetView NewScrollWidget (Some (NewView 80 24))) 1
     = \<lparr>Highlight = False, view = Some (NewView 80 24), maxl = 1, current = 0\<rparr> \<and>
   fst (SetCurrent \<lparr>Highlight = False, view = Some (NewView 80 24), maxl = 1, current = 0\<rparr> 0)
     = Some (ActionError (Error ''at bottom''))"
  by (simp add: SetMax_def SetView_def NewScrollWidget_def clampCurrent_def SetCurrent_def
      MoveLines_def clampDelta_def NewView_def word_sless_alt word_sle_eq)

section \<open>The selected line stays within the bound\<close>

lemma word_eq_sint: "(a :: goint) = b \<longleftrightarrow> sint a = sint b"
  by (rule word_eq_iff_signed)

text \<open>
  What \<^verbatim>\<open>applyDelta\<close> leaves, whether the surface accepts the calls or not: the origin
  row and the cursor row stay non-negative, and the position lies between the old one and
  the one asked for.
\<close>

lemma applyDelta_position:
  assumes oy: "0 \<le> sint (originY v)" and cy: "0 \<le> sint (cursorY v)"
    and t0: "0 \<le> position v + sint d" and t1: "position v + sint d < 2 ^ 63"
    and p1: "position v < 2 ^ 63"
    and r: "applyDelta v m d = (e, v')"
  shows "0 \<le> sint (originY v') \<and> 0 \<le> sint (cursorY v') \<and>
         min (position v) (position v + sint d) \<le> position v' \<and>
         position v' \<le> max (position v) (position v + sint d)"
  using assms sint_bounds64 [of d] sint_bounds64 [of "m - sizeY v"]
  apply (simp add: applyDelta_def applyCursor_def SetOrigin_def SetCursor_def Size_def Origin_def Cursor_def
      Let_def position_def minInt_def maxInt_def word_sless_alt word_sle_eq
       split: if_splits prod.splits option.splits)
  apply (auto simp: sint_add64 sint_sub64 sint_neg64 )
  done

text \<open>A delta that has passed the checks leads to a line within the bound.\<close>

lemma clampDelta_range:
  assumes c0: "0 \<le> sint c" and m0: "0 \<le> sint m"
    and inb: "0 < sint m \<longrightarrow> sint c < sint m" "sint m = 0 \<longrightarrow> sint c = 0"
    and r: "clampDelta c m d = Inr d'"
  shows "0 \<le> sint c + sint d' \<and> sint c + sint d' < sint m"
  using assms sint_bounds64 [of d] sint_bounds64 [of m] sint_bounds64 [of c]
  by (auto simp: clampDelta_def Let_def word_sless_alt word_sle_eq sint_add64 sint_sub64 sint_neg64
      split: if_splits)

lemma MoveLines_position:
  assumes oy: "0 \<le> sint (originY v)" and cy: "0 \<le> sint (cursorY v)"
    and m0: "0 \<le> sint m"
    and c: "sint c = position v"
    and inb: "0 < sint m \<longrightarrow> sint c < sint m" "sint m = 0 \<longrightarrow> sint c = 0"
    and r: "MoveLines (Some v) c m d = (e, vw')"
  shows "\<exists>v'. vw' = Some v' \<and> 0 \<le> sint (originY v') \<and> 0 \<le> sint (cursorY v') \<and>
           (0 < sint m \<longrightarrow> position v' < sint m) \<and> (sint m = 0 \<longrightarrow> position v' = 0)"
proof (cases "clampDelta c m d")
  case (Inl a)
  with r have "vw' = Some v"
    by (simp add: MoveLines_def)
  with oy cy c inb show ?thesis
    by simp
next
  case (Inr d')
  from c oy cy have c0: "0 \<le> sint c"
    by (simp add: position_def)
  from clampDelta_range [OF c0 m0 inb Inr]
  have t: "0 \<le> sint c + sint d'" "sint c + sint d' < sint m"
    by simp_all
  then have mpos: "0 < sint m" and cm: "sint c < sint m"
    using c0 inb m0 by linarith+
  show ?thesis
  proof (cases "d' = 0")
    case True
    with r Inr have "vw' = Some v"
      by (simp add: MoveLines_def)
    with oy cy c cm mpos show ?thesis
      by simp
  next
    case False
    obtain e1 v1 where a: "applyDelta v m d' = (e1, v1)"
      by (cases "applyDelta v m d'")
    with r Inr False have vw: "vw' = Some v1"
      by (simp add: MoveLines_def)
    have "position v + sint d' < 2 ^ 63" "position v < 2 ^ 63" "0 \<le> position v + sint d'"
      using t c sint_bounds64 [of m] sint_bounds64 [of c] by simp_all
    from applyDelta_position [OF oy cy this(3) this(1) this(2) a]
    have "0 \<le> sint (originY v1)" "0 \<le> sint (cursorY v1)"
      "min (position v) (position v + sint d') \<le> position v1"
      "position v1 \<le> max (position v) (position v + sint d')"
      by simp_all
    with vw t c cm mpos show ?thesis
      by auto
  qed
qed

lemma GetLine_position:
  assumes "0 \<le> sint (originY v)" "0 \<le> sint (cursorY v)" "position v < 2 ^ 63"
  shows "sint (GetLine (Some v)) = position v"
  using assms
  by (simp add: GetLine_def Origin_def Cursor_def position_def sint_add64)

text \<open>Every move, followed by the read-back of the selected line, keeps a widget consistent.\<close>

lemma move_consistent:
  assumes k: "consistent w"
    and r: "MoveLines (view w) (current w) (maxl w) d = (e, vw')"
  shows "consistent (w\<lparr>view := vw', current := GetLine vw'\<rparr>)"
proof (cases "view w")
  case None
  with r have "vw' = None"
    by (simp add: MoveLines_def)
  with k show ?thesis
    by (auto simp: consistent_def in_bounds_def synced_def Current_def GetLine_def
        word_sless_alt word_sle_eq)
next
  case (Some v)
  from k Some have oy: "0 \<le> sint (originY v)" and cy: "0 \<le> sint (cursorY v)"
    and c: "sint (current w) = position v" and m0: "0 \<le> sint (maxl w)"
    and inb: "0 < sint (maxl w) \<longrightarrow> sint (current w) < sint (maxl w)"
      "sint (maxl w) = 0 \<longrightarrow> sint (current w) = 0"
    by (auto simp: consistent_def in_bounds_def synced_def Current_def word_sless_alt word_sle_eq
        word_eq_sint)
  from r Some have "MoveLines (Some v) (current w) (maxl w) d = (e, vw')"
    by simp
  from MoveLines_position [OF oy cy m0 c inb this]
  obtain v' where v': "vw' = Some v'" "0 \<le> sint (originY v')" "0 \<le> sint (cursorY v')"
    "0 < sint (maxl w) \<longrightarrow> position v' < sint (maxl w)"
    "sint (maxl w) = 0 \<longrightarrow> position v' = 0"
    by blast
  have "position v' < 2 ^ 63"
    using v'(4,5) m0 sint_bounds64 [of "maxl w"] by (cases "sint (maxl w) = 0") auto
  from GetLine_position [OF v'(2,3) this] have g: "sint (GetLine (Some v')) = position v'" .
  have p0: "0 \<le> position v'"
    using v'(2,3) by (simp add: position_def)
  show ?thesis
    using v' g m0 p0
    by (auto simp: consistent_def in_bounds_def synced_def Current_def word_sless_alt word_sle_eq
        word_eq_sint)
qed

lemma doStep_consistent:
  assumes "consistent w"
  shows "consistent (doStep w s)"
proof (cases s)
  case StepNextLine
  with move_consistent [OF assms] show ?thesis
    by (simp add: NextLine_def split: prod.splits)
next
  case StepPreviousLine
  with move_consistent [OF assms] show ?thesis
    by (simp add: PreviousLine_def split: prod.splits)
next
  case StepNextPage
  with move_consistent [OF assms] assms show ?thesis
    by (simp add: NextPage_def Size_def split: prod.splits option.splits)
next
  case StepPreviousPage
  with move_consistent [OF assms] assms show ?thesis
    by (simp add: PreviousPage_def Size_def split: prod.splits option.splits)
qed

lemma steps_consistent:
  "consistent w \<Longrightarrow> consistent (foldl doStep w steps)"
  by (induction steps arbitrary: w) (simp_all add: doStep_consistent)


text \<open>A new widget, bound to no view or to a new one, with any bound that is not negative.\<close>

lemma initial_consistent:
  assumes "0 \<le>s m"
  shows "consistent (SetMax (SetView (NewScrollWidget\<lparr>Highlight := h\<rparr>) None) m)"
    and "consistent (SetMax (SetView (NewScrollWidget\<lparr>Highlight := h\<rparr>) (Some (NewView sx sy))) m)"
  using assms
  by (auto simp: consistent_def in_bounds_def synced_def SetMax_def SetView_def clampCurrent_def
      NewScrollWidget_def NewView_def Current_def position_def word_sless_alt word_sle_eq)

lemma doStep_maxl: "maxl (doStep w s) = maxl w"
  by (cases s)
    (simp_all add: NextLine_def PreviousLine_def NextPage_def PreviousPage_def
      split: prod.splits option.splits)

lemma steps_maxl: "maxl (foldl doStep w steps) = maxl w"
  by (induction steps arbitrary: w) (simp_all add: doStep_maxl)

text \<open>
  Claim C2, for a widget that starts on a view of its own. Take a new
  \<^verbatim>\<open>ScrollWidget\<close>, bound to no view or to a new view of any size,
  with any initial bound \<open>max \<ge> 0\<close>. After every finite sequence of \<^verbatim>\<open>NextLine\<close>,
  \<^verbatim>\<open>PreviousLine\<close>, \<^verbatim>\<open>NextPage\<close> and \<^verbatim>\<open>PreviousPage\<close> calls, hence after each call
  of such a sequence, the bound is still \<open>max\<close> and \<open>0 \<le> Current() < max\<close> holds when
  \<open>max > 0\<close>, \<open>Current() = 0\<close> when \<open>max = 0\<close>. This holds whether the surface accepts
  the \<^verbatim>\<open>SetOrigin\<close> and \<^verbatim>\<open>SetCursor\<close> calls or rejects them. The same holds from every
  widget that is consistent: its bound is not negative, its selected line is within the
  bound and is the position of its view.
\<close>

theorem steps_stay_in_bounds:
  assumes "0 \<le>s m"
  shows "in_bounds (foldl doStep (SetMax (SetView (NewScrollWidget\<lparr>Highlight := h\<rparr>) None) m) steps) \<and>
         in_bounds (foldl doStep
            (SetMax (SetView (NewScrollWidget\<lparr>Highlight := h\<rparr>) (Some (NewView sx sy))) m) steps) \<and>
         maxl (foldl doStep (SetMax (SetView (NewScrollWidget\<lparr>Highlight := h\<rparr>) vw) m) steps) = m \<and>
         (consistent w \<longrightarrow> in_bounds (foldl doStep w steps))"
proof -
  have b: "consistent u \<Longrightarrow> in_bounds (foldl doStep u steps)" for u
    using steps_consistent [of u steps] by (simp add: consistent_def)
  have m: "maxl (SetMax (SetView (NewScrollWidget\<lparr>Highlight := h\<rparr>) vw) m) = m"
    by (simp add: SetMax_def SetView_def clampCurrent_def NewScrollWidget_def split: option.splits)
  show ?thesis
    using b [OF initial_consistent(1) [OF assms]] b [OF initial_consistent(2) [OF assms]] b [of w] m
    by (simp add: steps_maxl)
qed

text \<open>
  Three lines on a surface of two rows: a line down, a page down, and a line down that fails
  at the bottom. And two steps on an empty widget without a view.
\<close>

theorem steps_stay_in_bounds_witness:
  "(0::goint) \<le>s 3 \<and>
   foldl doStep (SetMax (SetView (NewScrollWidget\<lparr>Highlight := False\<rparr>) (Some (NewView 80 2))) 3)
     [StepNextLine, StepNextPage, StepNextLine]
   = \<lparr>Highlight = False,
       view = Some ((NewView 80 2)
                \<lparr>originY := 1, cursorY := 1, calls := [CallSetCursor 0 1, CallSetOrigin 0 1]\<rparr>),
       maxl = 3, current = 2\<rparr> \<and>
   in_bounds \<lparr>Highlight = False,
       view = Some ((NewView 80 2)
                \<lparr>originY := 1, cursorY := 1, calls := [CallSetCursor 0 1, CallSetOrigin 0 1]\<rparr>),
       maxl = 3, current = 2\<rparr> \<and>
   consistent \<lparr>Highlight = False, view = None, maxl = 0, current = 0\<rparr> \<and>
   in_bounds (foldl doStep \<lparr>Highlight = False, view = None, maxl = 0, current = 0\<rparr>
     [StepPreviousPage, StepNextLine])"
proof -
  have m: "(0::goint) \<le>s 3"
    by (simp add: word_sle_eq)
  have run: "foldl doStep (SetMax (SetView (NewScrollWidget\<lparr>Highlight := False\<rparr>) (Some (NewView 80 2))) 3)
     [StepNextLine, StepNextPage, StepNextLine]
   = \<lparr>Highlight = False,
       view = Some ((NewView 80 2)
                \<lparr>originY := 1, cursorY := 1, calls := [CallSetCursor 0 1, CallSetOrigin 0 1]\<rparr>),
       maxl = 3, current = 2\<rparr>"
    by (simp add: SetMax_def SetView_def clampCurrent_def NewScrollWidget_def NextLine_def
        NextPage_def MoveLines_def clampDelta_def applyDelta_def applyCursor_def SetCursor_def
        SetOrigin_def Size_def Origin_def Cursor_def GetLine_def NewView_def Let_def minInt_def
        maxInt_def word_sless_alt word_sle_eq)
  have c: "consistent \<lparr>Highlight = False, view = None, maxl = 0, current = 0\<rparr>"
    by (simp add: consistent_def in_bounds_def synced_def Current_def word_sle_eq)
  note t = steps_stay_in_bounds [OF m, of False "[StepNextLine, StepNextPage, StepNextLine]" 80 2
      None "\<lparr>Highlight = False, view = None, maxl = 0, current = 0\<rparr>"]
  note u = steps_stay_in_bounds [OF m, of False "[StepPreviousPage, StepNextLine]" 80 2
      None "\<lparr>Highlight = False, view = None, maxl = 0, current = 0\<rparr>"]
  from t have 1: "in_bounds (foldl doStep
      (SetMax (SetView (NewScrollWidget\<lparr>Highlight := False\<rparr>) (Some (NewView 80 2))) 3)
      [StepNextLine, StepNextPage, StepNextLine])"
    by (rule conjunct1 [OF conjunct2])
  from u c have 2: "in_bounds (foldl doStep \<lparr>Highlight = False, view = None, maxl = 0, current = 0\<rparr>
     [StepPreviousPage, StepNextLine])"
    by (simp only:)
  from 1 have 3: "in_bounds \<lparr>Highlight = False,
       view = Some ((NewView 80 2)
                \<lparr>originY := 1, cursorY := 1, calls := [CallSetCursor 0 1, CallSetOrigin 0 1]\<rparr>),
       maxl = 3, current = 2\<rparr>"
    by (simp only: run)
  show ?thesis
    by (intro conjI m run 3 c 2)
qed

text \<open>
  The claim as it was stated, for every \<^verbatim>\<open>ScrollWidget\<close>, fails on a widget whose view
  shows another line than the widget holds. One widget moves five lines down on a view
  with the bound 10. A second, new widget is bound to the same view, with the bound 3: it
  holds line 0 while the view shows line 5, and its first \<^verbatim>\<open>NextLine\<close> selects line 6.
\<close>

theorem steps_stay_in_bounds_counterexample:
  "(0::goint) \<le>s 3 \<and>
   maxl (foldl doStep
      (SetMax (SetView NewScrollWidget
         (view (foldl doStep (SetMax (SetView NewScrollWidget (Some (NewView 80 24))) 10)
            [StepNextLine, StepNextLine, StepNextLine, StepNextLine, StepNextLine]))) 3)
      [StepNextLine]) = 3 \<and>
   sint (Current (foldl doStep
      (SetMax (SetView NewScrollWidget
         (view (foldl doStep (SetMax (SetView NewScrollWidget (Some (NewView 80 24))) 10)
            [StepNextLine, StepNextLine, StepNextLine, StepNextLine, StepNextLine]))) 3)
      [StepNextLine])) = 6 \<and>
   \<not> in_bounds (foldl doStep
      (SetMax (SetView NewScrollWidget
         (view (foldl doStep (SetMax (SetView NewScrollWidget (Some (NewView 80 24))) 10)
            [StepNextLine, StepNextLine, StepNextLine, StepNextLine, StepNextLine]))) 3)
      [StepNextLine])"
  by (simp add: in_bounds_def Current_def NextLine_def SetMax_def SetView_def clampCurrent_def
      NewScrollWidget_def MoveLines_def clampDelta_def applyDelta_def applyCursor_def
      SetCursor_def SetOrigin_def Size_def Origin_def Cursor_def GetLine_def NewView_def Let_def
      minInt_def maxInt_def word_sless_alt word_sle_eq)

section \<open>Shrinking the bound\<close>

text \<open>
  An upward move on a view that accepts it: the origin column is not negative and the
  cursor lies inside the visible size. The position is then the one asked for.
\<close>

lemma applyDelta_up_exact:
  assumes oy: "0 \<le> sint (originY v)" and cy: "0 \<le> sint (cursorY v)"
    and d: "sint d < 0" and t0: "0 \<le> position v + sint d" and p1: "position v < 2 ^ 63"
    and ox: "0 \<le> sint (originX v)"
    and cx: "0 \<le> sint (cursorX v)" "sint (cursorX v) < sint (sizeX v)"
    and cyy: "sint (cursorY v) < sint (sizeY v)"
    and r: "applyDelta v m d = (e, v')"
  shows "e = None \<and> 0 \<le> sint (originY v') \<and> 0 \<le> sint (cursorY v') \<and>
         position v' = position v + sint d"
  using assms sint_bounds64 [of d]
  apply (simp add: applyDelta_def applyCursor_def SetOrigin_def SetCursor_def Size_def Origin_def Cursor_def
      Let_def position_def minInt_def maxInt_def word_sless_alt word_sle_eq
       split: if_splits prod.splits option.splits)
  apply (auto simp: sint_add64 sint_sub64 sint_neg64 word_eq_sint)
  done

lemma clampDelta_up:
  assumes c: "0 < sint c" and d: "sint d < 0"
  shows "clampDelta c m d = Inr (if sint c + sint d < 0 then - c else d)"
  using assms sint_bounds64 [of d] sint_bounds64 [of c]
  by (auto simp: clampDelta_def word_sless_alt word_sle_eq sint_add64)


lemma SetMax_no_view:
  assumes "view w = None" and "newMax \<le>s Current w"
  shows "Current (SetMax w newMax) = 0"
  using assms
  by (simp add: SetMax_def clampCurrent_def SetCurrent_def MoveLines_def GetLine_def Current_def
      word_sless_alt word_sle_eq word_eq_sint)

lemma SetMax_view:
  assumes v: "view w = Some v" and s: "synced w"
    and ox: "0 \<le>s originX v"
    and cx: "0 \<le>s cursorX v" "cursorX v <s sizeX v" and cy: "cursorY v <s sizeY v"
    and le: "newMax \<le>s Current w"
    and no: "- (2 ^ 63) \<le> sint newMax - 1 - sint (Current w)"
  shows "sint (Current (SetMax w newMax)) = max (sint newMax - 1) 0"
proof -
  let ?c = "current w"
  from s v have oy: "0 \<le> sint (originY v)" and cy0: "0 \<le> sint (cursorY v)"
    and c: "sint ?c = position v"
    by (simp_all add: synced_def word_sle_eq)
  then have c0: "0 \<le> sint ?c"
    by (simp add: position_def)
  from le have le': "sint newMax \<le> sint ?c"
    by (simp add: word_sle_eq Current_def)
  from no have no': "- (2 ^ 63) \<le> sint newMax - 1 - sint ?c"
    by (simp add: Current_def)
  show ?thesis
  proof (cases "sint ?c = 0")
    case True
    with le' have "SetMax w newMax = w\<lparr>maxl := newMax\<rparr>"
      by (simp add: SetMax_def clampCurrent_def word_sless_alt)
    with True le' show ?thesis
      by (simp add: Current_def)
  next
    case False
    with c0 have cpos: "0 < sint ?c"
      by simp
    let ?d = "newMax - 1 - ?c"
    have m1: "sint (newMax - 1) = sint newMax - 1"
      using no' cpos sint_bounds64 [of newMax] by (simp add: sint_sub64)
    have d: "sint ?d = sint newMax - 1 - sint ?c"
      using no' cpos le' sint_bounds64 [of newMax] sint_bounds64 [of ?c]
      by (simp add: sint_sub64 m1)
    then have dneg: "sint ?d < 0"
      using le' by simp
    let ?d' = "if sint ?c + sint ?d < 0 then - ?c else ?d"
    have cl: "clampDelta ?c newMax ?d = Inr ?d'"
      by (rule clampDelta_up [OF cpos dneg])
    have d': "sint ?d' = max (sint newMax - 1) 0 - sint ?c"
      using d cpos sint_bounds64 [of ?c] by (simp add: sint_neg64)
    then have d'neg: "sint ?d' < 0" and d'0: "?d' \<noteq> 0"
      using le' cpos by auto
    obtain e v' where a: "applyDelta v newMax ?d' = (e, v')"
      by (cases "applyDelta v newMax ?d'")
    have t0: "0 \<le> position v + sint ?d'" and p1: "position v < 2 ^ 63"
      using d' c sint_bounds64 [of ?c] by simp_all
    from ox cx cy have ox': "0 \<le> sint (originX v)" and cx': "0 \<le> sint (cursorX v)"
      "sint (cursorX v) < sint (sizeX v)" and cy': "sint (cursorY v) < sint (sizeY v)"
      by (simp_all add: word_sle_eq word_sless_alt)
    from applyDelta_up_exact [OF oy cy0 d'neg t0 p1 ox' cx' cy' a]
    have r: "0 \<le> sint (originY v')" "0 \<le> sint (cursorY v')"
      "position v' = position v + sint ?d'"
      by simp_all
    have "position v' < 2 ^ 63"
      using r(3) d'neg p1 by simp
    from GetLine_position [OF r(1,2) this] have g: "sint (GetLine (Some v')) = position v'" .
    have mv: "MoveLines (Some v) ?c newMax ?d = (e, Some v')"
      using cl d'0 a by (simp add: MoveLines_def)
    have "0 <s ?c \<and> newMax \<le>s ?c"
      using cpos le' by (simp add: word_sless_alt word_sle_eq)
    then have "Current (SetMax w newMax) = GetLine (Some v')"
      using v mv cpos
      by (simp add: SetMax_def clampCurrent_def SetCurrent_def Current_def word_sless_alt)
    with g r(3) d' c show ?thesis
      by simp
  qed
qed

text \<open>
  Claim C5, as amended. Let \<^verbatim>\<open>SetMax(newMax)\<close> be called with \<open>newMax \<le> Current()\<close>.
  On a widget with no view bound, \<open>Current()\<close> is 0 afterwards. On a widget bound to a view
  of which it holds the position (origin row + cursor row, both non-negative), when the
  origin column is not negative and the cursor lies inside the visible size, so that the
  surface accepts the move, and when \<open>newMax - 1 - Current()\<close> does not overflow,
  \<open>Current()\<close> is \<open>max(newMax - 1, 0)\<close> afterwards.
\<close>

theorem SetMax_shrink:
  "(view w = None \<and> newMax \<le>s Current w \<longrightarrow> Current (SetMax w newMax) = 0) \<and>
   (view w = Some v \<and> synced w \<and> 0 \<le>s originX v \<and> 0 \<le>s cursorX v \<and> cursorX v <s sizeX v \<and>
    cursorY v <s sizeY v \<and> newMax \<le>s Current w \<and>
    - (2 ^ 63) \<le> sint newMax - 1 - sint (Current w) \<longrightarrow>
      sint (Current (SetMax w newMax)) = max (sint newMax - 1) 0)"
  using SetMax_no_view [of w newMax] SetMax_view [of w v newMax]
  by blast

text \<open>
  A widget on line 7 of 10 whose bound shrinks to 5: without a view the selected line
  becomes 0, on a view of 24 rows it becomes 4.
\<close>

theorem SetMax_shrink_witness:
  "view \<lparr>Highlight = False, view = None, maxl = 10, current = 7\<rparr> = None \<and>
   5 \<le>s Current \<lparr>Highlight = False, view = None, maxl = 10, current = 7\<rparr> \<and>
   Current (SetMax \<lparr>Highlight = False, view = None, maxl = 10, current = 7\<rparr> 5) = 0 \<and>
   view \<lparr>Highlight = False, view = Some ((NewView 80 24)\<lparr>cursorY := 7\<rparr>), maxl = 10, current = 7\<rparr>
     = Some ((NewView 80 24)\<lparr>cursorY := 7\<rparr>) \<and>
   synced \<lparr>Highlight = False, view = Some ((NewView 80 24)\<lparr>cursorY := 7\<rparr>), maxl = 10,
            current = 7\<rparr> \<and>
   0 \<le>s originX ((NewView 80 24)\<lparr>cursorY := 7\<rparr>) \<and>
   0 \<le>s cursorX ((NewView 80 24)\<lparr>cursorY := 7\<rparr>) \<and>
   cursorX ((NewView 80 24)\<lparr>cursorY := 7\<rparr>) <s sizeX ((NewView 80 24)\<lparr>cursorY := 7\<rparr>) \<and>
   cursorY ((NewView 80 24)\<lparr>cursorY := 7\<rparr>) <s sizeY ((NewView 80 24)\<lparr>cursorY := 7\<rparr>) \<and>
   5 \<le>s Current \<lparr>Highlight = False, view = Some ((NewView 80 24)\<lparr>cursorY := 7\<rparr>), maxl = 10,
                  current = 7\<rparr> \<and>
   - (2 ^ 63) \<le> sint (5 :: goint) - 1
       - sint (Current \<lparr>Highlight = False, view = Some ((NewView 80 24)\<lparr>cursorY := 7\<rparr>),
                          maxl = 10, current = 7\<rparr>) \<and>
   sint (Current (SetMax \<lparr>Highlight = False, view = Some ((NewView 80 24)\<lparr>cursorY := 7\<rparr>),
                           maxl = 10, current = 7\<rparr> 5)) = 4"
proof -
  let ?u = "\<lparr>Highlight = False, view = None, maxl = 10, current = 7\<rparr>"
  let ?v = "(NewView 80 24)\<lparr>cursorY := 7\<rparr>"
  let ?w = "\<lparr>Highlight = False, view = Some ?v, maxl = 10, current = 7\<rparr>"
  have a: "view ?u = None \<and> 5 \<le>s Current ?u"
    by (simp add: Current_def word_sle_eq)
  have b: "view ?w = Some ?v \<and> synced ?w \<and> 0 \<le>s originX ?v \<and> 0 \<le>s cursorX ?v \<and>
      cursorX ?v <s sizeX ?v \<and> cursorY ?v <s sizeY ?v \<and> 5 \<le>s Current ?w \<and>
      - (2 ^ 63) \<le> sint (5 :: goint) - 1 - sint (Current ?w)"
    by (simp add: synced_def position_def NewView_def Current_def word_sle_eq word_sless_alt)
  have 1: "Current (SetMax ?u 5) = 0"
    by (rule mp [OF conjunct1 [OF SetMax_shrink [of ?u 5 undefined]] a])
  have "sint (Current (SetMax ?w 5)) = max (sint (5 :: goint) - 1) 0"
    by (rule mp [OF conjunct2 [OF SetMax_shrink [of ?w 5 ?v]] b])
  then have 2: "sint (Current (SetMax ?w 5)) = 4"
    by simp
  from a b 1 2 show ?thesis
    by (simp only:)
qed

text \<open>
  The claim as it was stated fails on a widget that has moved two lines down on a view and
  has then lost the view (\<^verbatim>\<open>SetView(nil)\<close>): it holds line 2, and after \<^verbatim>\<open>SetMax(2)\<close>
  the selected line is 0, not \<open>max(2 - 1, 0) = 1\<close>.
\<close>

theorem SetMax_shrink_counterexample:
  "(2 :: goint) \<le>s Current (SetView (doStep (doStep
        (SetMax (SetView NewScrollWidget (Some (NewView 80 24))) 10)
        StepNextLine) StepNextLine) None) \<and>
   sint (Current (SetMax (SetView (doStep (doStep
        (SetMax (SetView NewScrollWidget (Some (NewView 80 24))) 10)
        StepNextLine) StepNextLine) None) 2))
     \<noteq> max (sint (2 :: goint) - 1) 0"
  by (simp add: SetView_def SetMax_def clampCurrent_def NewScrollWidget_def NextLine_def
      SetCurrent_def Current_def MoveLines_def clampDelta_def applyDelta_def applyCursor_def
      SetCursor_def Size_def Origin_def Cursor_def GetLine_def NewView_def Let_def
      word_sless_alt word_sle_eq)


text \<open>
  The conditions of the bound case are needed. A view that has shrunk to three rows while its
  cursor stayed on row 7 rejects the \<^verbatim>\<open>SetCursor\<close> call, and the selected line stays 7 after
  \<^verbatim>\<open>SetMax(5)\<close>; and for the least \<^verbatim>\<open>int\<close> the subtraction \<^verbatim>\<open>max - 1\<close> wraps to the
  greatest, the target lies far below, and the move fails at the bottom.
\<close>

lemma SetMax_surface_rejects:
  "synced \<lparr>Highlight = False, view = Some ((NewView 80 3)\<lparr>cursorY := 7\<rparr>),
           maxl = 10, current = 7\<rparr> \<and>
   sint (Current (SetMax \<lparr>Highlight = False, view = Some ((NewView 80 3)\<lparr>cursorY := 7\<rparr>),
                           maxl = 10, current = 7\<rparr> 5)) = 7"
  by (simp add: synced_def position_def SetMax_def clampCurrent_def SetCurrent_def Current_def
      MoveLines_def clampDelta_def applyDelta_def applyCursor_def SetCursor_def Size_def
      Origin_def Cursor_def GetLine_def NewView_def Let_def word_sless_alt word_sle_eq)

lemma SetMax_overflow:
  "synced \<lparr>Highlight = False, view = Some ((NewView 80 24)\<lparr>cursorY := 7\<rparr>),
           maxl = 10, current = 7\<rparr> \<and>
   (- 9223372036854775808 :: goint) \<le>s 7 \<and>
   sint (Current (SetMax \<lparr>Highlight = False, view = Some ((NewView 80 24)\<lparr>cursorY := 7\<rparr>),
                           maxl = 10, current = 7\<rparr> (- 9223372036854775808))) = 7"
  by (simp add: synced_def position_def SetMax_def clampCurrent_def SetCurrent_def Current_def
      MoveLines_def clampDelta_def applyDelta_def applyCursor_def SetCursor_def Size_def
      Origin_def Cursor_def GetLine_def NewView_def Let_def word_sless_alt word_sle_eq)
section \<open>Backspace in the prompt\<close>

text \<open>The definitions that evaluate a prompt on a concrete surface.\<close>

lemmas prompt_defs = SetPrompt_def SetText_def render_def Fprintf_def Write_def Clear_def setEditor_def
     len_def SetCursor_def Size_def NewView_def writeRune_def byte_def word_sless_alt word_sle_eq Let_def
     keyEvent_def promptEditor_def Cursor_def EditWrite_def EditDelete_def mapLine_def insertAt_def deleteAt_def
     Buffer_def encodeRunes_def encodeRune_def chr_def getFirstLine_def TrimSpace_def trimRight_def
     decodeLastRune_def isSpace_def runeStart_def contByte_def sliceFrom_def RuneError_def
     secondOk_def secondLo_def secondHi_def char_of_eq_iff

text \<open>A text without \<^verbatim>\<open>%\<close> is written as it is; every other text is rewritten.\<close>

lemma doPrintf_plain:
  assumes "CHR ''%'' \<notin> set s"
  shows "doPrintf s = s"
proof -
  have t: "takeWhile (\<lambda>c. c \<noteq> CHR ''%'') s = s"
    using assms by (simp add: takeWhile_eq_all_conv) blast
  have d: "dropWhile (\<lambda>c. c \<noteq> CHR ''%'') s = []"
    using assms by (simp add: dropWhile_eq_Nil_conv) blast
  show ?thesis
    by (subst doPrintf.simps) (simp add: t d)
qed

lemma doPrintf_missing: "doPrintf ''100%: '' = ''100%!:(MISSING) ''"
  by code_simp

lemma doPrintf_percent: "doPrintf ''100%% of 3%'' = ''100% of 3%!(NOVERB)''"
  by code_simp

text \<open>Trimming and taking the first line do not lengthen a string.\<close>

lemma length_trimLeft: "length (trimLeft s) \<le> length s"
proof (induction s rule: trimLeft.induct)
  case 1
  show ?case by simp
next
  case (2 c cs)
  obtain r n where d: "decodeRune (c # cs) = (r, n)"
    by (cases "decodeRune (c # cs)")
  show ?case
  proof (cases "isSpace r")
    case True
    with 2 d have "length (trimLeft (drop (n - 1) cs)) \<le> length (drop (n - 1) cs)"
      by simp
    with d True show ?thesis
      by (simp del: decodeRune.simps)
  next
    case False
    with d show ?thesis
      by (simp del: decodeRune.simps)
  qed
qed

lemma length_trimRightRev: "length (trimRightRev s) \<le> length s"
proof (induction s rule: trimRightRev.induct)
  case 1
  show ?case by simp
next
  case (2 c cs)
  obtain r n where d: "decodeLastRune (rev (c # cs)) = (r, n)"
    by (cases "decodeLastRune (rev (c # cs))")
  show ?case
  proof (cases "isSpace r")
    case True
    with 2 d have "length (trimRightRev (drop (n - 1) cs)) \<le> length (drop (n - 1) cs)"
      by simp
    with d True show ?thesis
      by simp
  next
    case False
    with d show ?thesis
      by simp
  qed
qed

lemma length_TrimSpace: "length (TrimSpace s) \<le> length s"
  using length_trimRightRev [of "rev (trimLeft s)"] length_trimLeft [of s]
  by (simp add: TrimSpace_def trimRight_def)

lemma length_getFirstLine: "length (getFirstLine s) \<le> length s"
  by (simp add: getFirstLine_def length_takeWhile_le)

text \<open>The length of a string that fits a Go string, and the slice at the clamped offset.\<close>

lemma sint_len:
  assumes "length s < 2 ^ 63"
  shows "sint (len s) = int (length s)"
proof -
  have "sint (len s) = signed_take_bit 63 (int (length s))"
    by (simp add: len_def signed_of_nat)
  also have "\<dots> = int (length s)"
    using assms by (simp add: signed_take_bit_int_eq_self)
  finally show ?thesis .
qed

lemma slice_clamped:
  assumes o: "0 \<le>s offset" and l: "length content < 2 ^ 63"
  shows "sliceFrom content (if len content <s offset then len content else offset)
    = Inr (drop (nat (sint (if len content <s offset then len content else offset))) content)"
  using assms sint_len [OF l]
  by (simp add: sliceFrom_def word_sless_alt word_sle_eq)

lemma backspace_cancel:
  assumes k: "key \<in> {KeyBackspace, KeyBackspace2}" and c: "\<not> (ch \<noteq> 0 \<and> md = 0)"
    and x: "\<not> offset <s cursorX v" and o: "0 \<le>s offset" and l: "length (Buffer v) < 2 ^ 63"
  shows "promptEditor offset v key ch md =
    (let content = TrimSpace (getFirstLine (Buffer v));
         offset1 = (if len content <s offset then len content else offset)
     in Inr (offset1, v, True, Some (False, drop (nat (sint offset1)) content)))"
proof -
  let ?content = "TrimSpace (getFirstLine (Buffer v))"
  have "length ?content \<le> length (Buffer v)"
    using length_TrimSpace [of "getFirstLine (Buffer v)"] length_getFirstLine [of "Buffer v"]
    by simp
  with l have "length ?content < 2 ^ 63"
    by simp
  from slice_clamped [OF o this] k c x show ?thesis
    by (auto simp: promptEditor_def Cursor_def Let_def)
qed

lemma backspace_delete:
  assumes k: "key \<in> {KeyBackspace, KeyBackspace2}" and c: "\<not> (ch \<noteq> 0 \<and> md = 0)"
    and x: "offset <s cursorX v"
  shows "promptEditor offset v key ch md = Inr (offset, EditDelete v True, True, None)"
  using assms by (auto simp: promptEditor_def Cursor_def Let_def)

text \<open>
  Claim C6. Let the key be Backspace (either of the two key codes), in an event to which the
  first rule does not apply. When the cursor column is greater than the offset, the editor
  deletes the character before the cursor (\<^verbatim>\<open>EditDelete(true)\<close>), consumes the event and
  does not call the callback. Otherwise, for an offset that is not negative and a buffer
  that fits a Go string, it leaves the view as it is, consumes the event and calls the
  callback with \<open>committed = false\<close> and the trimmed first line from the clamped offset
  on: the session is cancelled. In particular, on a surface wider than the prefix: after
  \<^verbatim>\<open>SetPrompt\<close> with the prefix \<^verbatim>\<open>"Search: "\<close> and empty content, the keys \<open>a\<close>,
  \<open>b\<close>, \<open>c\<close> and three Backspaces leave the prefix on the surface, with the cursor
  behind it and no call of the callback; the fourth Backspace calls the callback, once, with
  \<open>(false, "")\<close>, and the editor is taken off the surface.
\<close>

theorem backspace_rule:
  assumes k: "key \<in> {KeyBackspace, KeyBackspace2}" and c: "\<not> (ch \<noteq> 0 \<and> md = 0)"
  shows "(offset <s cursorX v \<longrightarrow>
            promptEditor offset v key ch md = Inr (offset, EditDelete v True, True, None)) \<and>
         (\<not> offset <s cursorX v \<and> 0 \<le>s offset \<and> length (Buffer v) < 2 ^ 63 \<longrightarrow>
            promptEditor offset v key ch md =
              (let content = TrimSpace (getFirstLine (Buffer v));
                   offset1 = (if len content <s offset then len content else offset)
               in Inr (offset1, v, True, Some (False, drop (nat (sint offset1)) content)))) \<and>
         (8 <s sx \<and> 0 <s sy \<longrightarrow>
            keyEvents (snd (SetPrompt \<lparr>textView = Some (NewView sx sy), widgetText = t\<rparr>
                              ''Search: '' []))
              [(KeyOther 0, 0x61, 0), (KeyOther 0, 0x62, 0), (KeyOther 0, 0x63, 0),
               (key, 0, 0), (key, 0, 0), (key, 0, 0)]
            = Inr (\<lparr>textView = Some ((NewView sx sy)
                       \<lparr>cursorX := 8, buffer := [[0x53, 0x65, 0x61, 0x72, 0x63, 0x68, 0x3A, 0x20]],
                          Editable := True, Editor := Some 8, calls := [CallSetCursor 8 0]\<rparr>),
                     widgetText = ''Search: ''\<rparr>, []) \<and>
            keyEvents (snd (SetPrompt \<lparr>textView = Some (NewView sx sy), widgetText = t\<rparr>
                              ''Search: '' []))
              [(KeyOther 0, 0x61, 0), (KeyOther 0, 0x62, 0), (KeyOther 0, 0x63, 0),
               (key, 0, 0), (key, 0, 0), (key, 0, 0), (key, 0, 0)]
            = Inr (\<lparr>textView = Some ((NewView sx sy)
                       \<lparr>cursorX := 8, buffer := [[0x53, 0x65, 0x61, 0x72, 0x63, 0x68, 0x3A, 0x20]],
                          Editable := False, Editor := None, calls := [CallSetCursor 8 0]\<rparr>),
                     widgetText = ''Search: ''\<rparr>, [(False, [])]))"
proof -
  have 1: "offset <s cursorX v \<longrightarrow>
            promptEditor offset v key ch md = Inr (offset, EditDelete v True, True, None)"
    using backspace_delete [OF k c] by simp
  have 2: "\<not> offset <s cursorX v \<and> 0 \<le>s offset \<and> length (Buffer v) < 2 ^ 63 \<longrightarrow>
            promptEditor offset v key ch md =
              (let content = TrimSpace (getFirstLine (Buffer v));
                   offset1 = (if len content <s offset then len content else offset)
               in Inr (offset1, v, True, Some (False, drop (nat (sint offset1)) content)))"
    using backspace_cancel [OF k c] by simp
  have 3: "8 <s sx \<and> 0 <s sy \<longrightarrow>
            keyEvents (snd (SetPrompt \<lparr>textView = Some (NewView sx sy), widgetText = t\<rparr>
                              ''Search: '' []))
              [(KeyOther 0, 0x61, 0), (KeyOther 0, 0x62, 0), (KeyOther 0, 0x63, 0),
               (key, 0, 0), (key, 0, 0), (key, 0, 0)]
            = Inr (\<lparr>textView = Some ((NewView sx sy)
                       \<lparr>cursorX := 8, buffer := [[0x53, 0x65, 0x61, 0x72, 0x63, 0x68, 0x3A, 0x20]],
                          Editable := True, Editor := Some 8, calls := [CallSetCursor 8 0]\<rparr>),
                     widgetText = ''Search: ''\<rparr>, []) \<and>
            keyEvents (snd (SetPrompt \<lparr>textView = Some (NewView sx sy), widgetText = t\<rparr>
                              ''Search: '' []))
              [(KeyOther 0, 0x61, 0), (KeyOther 0, 0x62, 0), (KeyOther 0, 0x63, 0),
               (key, 0, 0), (key, 0, 0), (key, 0, 0), (key, 0, 0)]
            = Inr (\<lparr>textView = Some ((NewView sx sy)
                       \<lparr>cursorX := 8, buffer := [[0x53, 0x65, 0x61, 0x72, 0x63, 0x68, 0x3A, 0x20]],
                          Editable := False, Editor := None, calls := [CallSetCursor 8 0]\<rparr>),
                     widgetText = ''Search: ''\<rparr>, [(False, [])])"
    using k by (auto simp: prompt_defs doPrintf_plain)
  show ?thesis
    by (intro conjI 1 2 3)
qed

text \<open>
  The two cases at the offset 8: the cursor behind \<^verbatim>\<open>"Search: abc"\<close>, and the cursor
  behind \<^verbatim>\<open>"Search: "\<close>, where the trimmed line is one byte shorter than the offset. And
  the scenario on a surface of 80 columns and one row.
\<close>

theorem backspace_rule_witness:
  "KeyBackspace2 \<in> {KeyBackspace, KeyBackspace2} \<and> \<not> ((0::rune) \<noteq> 0 \<and> (0::Modifier) = 0) \<and>
   8 <s cursorX ((NewView 80 1)
      \<lparr>cursorX := 11, buffer := [[0x53, 0x65, 0x61, 0x72, 0x63, 0x68, 0x3A, 0x20, 0x61, 0x62, 0x63]]\<rparr>) \<and>
   promptEditor 8 ((NewView 80 1)
      \<lparr>cursorX := 11, buffer := [[0x53, 0x65, 0x61, 0x72, 0x63, 0x68, 0x3A, 0x20, 0x61, 0x62, 0x63]]\<rparr>)
      KeyBackspace2 0 0
     = Inr (8, (NewView 80 1)
      \<lparr>cursorX := 10, buffer := [[0x53, 0x65, 0x61, 0x72, 0x63, 0x68, 0x3A, 0x20, 0x61, 0x62]]\<rparr>,
            True, None) \<and>
   \<not> 8 <s cursorX ((NewView 80 1)
      \<lparr>cursorX := 8, buffer := [[0x53, 0x65, 0x61, 0x72, 0x63, 0x68, 0x3A, 0x20]]\<rparr>) \<and>
   (0::goint) \<le>s 8 \<and>
   length (Buffer ((NewView 80 1)
      \<lparr>cursorX := 8, buffer := [[0x53, 0x65, 0x61, 0x72, 0x63, 0x68, 0x3A, 0x20]]\<rparr>)) < 2 ^ 63 \<and>
   promptEditor 8 ((NewView 80 1)
      \<lparr>cursorX := 8, buffer := [[0x53, 0x65, 0x61, 0x72, 0x63, 0x68, 0x3A, 0x20]]\<rparr>)
      KeyBackspace2 0 0
     = Inr (7, (NewView 80 1)
      \<lparr>cursorX := 8, buffer := [[0x53, 0x65, 0x61, 0x72, 0x63, 0x68, 0x3A, 0x20]]\<rparr>,
            True, Some (False, [])) \<and>
   (8::goint) <s 80 \<and> (0::goint) <s 1 \<and>
   keyEvents (snd (SetPrompt \<lparr>textView = Some (NewView 80 1), widgetText = []\<rparr> ''Search: '' []))
     [(KeyOther 0, 0x61, 0), (KeyOther 0, 0x62, 0), (KeyOther 0, 0x63, 0),
      (KeyBackspace2, 0, 0), (KeyBackspace2, 0, 0), (KeyBackspace2, 0, 0), (KeyBackspace2, 0, 0)]
     = Inr (\<lparr>textView = Some ((NewView 80 1)
                \<lparr>cursorX := 8, buffer := [[0x53, 0x65, 0x61, 0x72, 0x63, 0x68, 0x3A, 0x20]],
                   Editable := False, Editor := None, calls := [CallSetCursor 8 0]\<rparr>),
              widgetText = ''Search: ''\<rparr>, [(False, [])])"
proof -
  let ?abc = "(NewView 80 1)
      \<lparr>cursorX := 11, buffer := [[0x53, 0x65, 0x61, 0x72, 0x63, 0x68, 0x3A, 0x20, 0x61, 0x62, 0x63]]\<rparr>"
  let ?ab = "(NewView 80 1)
      \<lparr>cursorX := 10, buffer := [[0x53, 0x65, 0x61, 0x72, 0x63, 0x68, 0x3A, 0x20, 0x61, 0x62]]\<rparr>"
  let ?p = "(NewView 80 1)
      \<lparr>cursorX := 8, buffer := [[0x53, 0x65, 0x61, 0x72, 0x63, 0x68, 0x3A, 0x20]]\<rparr>"
  have k: "KeyBackspace2 \<in> {KeyBackspace, KeyBackspace2}"
    by simp
  have c: "\<not> ((0::rune) \<noteq> 0 \<and> (0::Modifier) = 0)"
    by simp
  have h1: "8 <s cursorX ?abc"
    by (simp add: word_sless_alt)
  have h2: "\<not> 8 <s cursorX ?p \<and> (0::goint) \<le>s 8 \<and> length (Buffer ?p) < 2 ^ 63"
    by (simp add: word_sless_alt word_sle_eq Buffer_def encodeRunes_def encodeRune_def NewView_def)
  have h3: "(8::goint) <s 80 \<and> (0::goint) <s 1"
    by (simp add: word_sless_alt)
  have d: "EditDelete ?abc True = ?ab"
    by (simp add: EditDelete_def mapLine_def deleteAt_def NewView_def Let_def word_sless_alt)
  have t: "(let content = TrimSpace (getFirstLine (Buffer ?p));
                offset1 = (if len content <s 8 then len content else 8)
            in Inr (offset1, ?p, True, Some (False, drop (nat (sint offset1)) content)))
      = (Inr (7, ?p, True, Some (False, []))
          :: panic + (goint \<times> View \<times> bool \<times> (bool \<times> string) option))"
    by (simp add: prompt_defs)
  note r = backspace_rule [OF k c]
  have 1: "promptEditor 8 ?abc KeyBackspace2 0 0 = Inr (8, ?ab, True, None)"
    using mp [OF conjunct1 [OF r [of 8 ?abc 80 1 "[]"]] h1] by (simp only: d)
  have 2: "promptEditor 8 ?p KeyBackspace2 0 0 = Inr (7, ?p, True, Some (False, []))"
    using mp [OF conjunct1 [OF conjunct2 [OF r [of 8 ?p 80 1 "[]"]]] h2] by (simp only: t)
  have 3: "keyEvents (snd (SetPrompt \<lparr>textView = Some (NewView 80 1), widgetText = []\<rparr> ''Search: '' []))
     [(KeyOther 0, 0x61, 0), (KeyOther 0, 0x62, 0), (KeyOther 0, 0x63, 0),
      (KeyBackspace2, 0, 0), (KeyBackspace2, 0, 0), (KeyBackspace2, 0, 0), (KeyBackspace2, 0, 0)]
     = Inr (\<lparr>textView = Some ((NewView 80 1)
                \<lparr>cursorX := 8, buffer := [[0x53, 0x65, 0x61, 0x72, 0x63, 0x68, 0x3A, 0x20]],
                   Editable := False, Editor := None, calls := [CallSetCursor 8 0]\<rparr>),
              widgetText = ''Search: ''\<rparr>, [(False, [])])"
    by (rule conjunct2 [OF mp [OF conjunct2 [OF conjunct2 [OF r [of 8 ?p 80 1 "[]"]]] h3]])
  show ?thesis
    by (intro conjI k c h1 1 2 3 conjunct1 [OF h2] conjunct1 [OF conjunct2 [OF h2]]
        conjunct2 [OF conjunct2 [OF h2]] conjunct1 [OF h3] conjunct2 [OF h3])
qed


text \<open>
  The second prompt scenario of the specification (section 8), on a surface of 80 columns
  and one row: after \<^verbatim>\<open>SetPrompt\<close> with the prefix \<^verbatim>\<open>"Name: "\<close> and the content
  \<^verbatim>\<open>"x"\<close>, the keys Right, \<open>y\<close> and Enter call the callback with \<open>(true, "xy")\<close>.
\<close>

lemma prompt_right_appends:
  "keyEvents (snd (SetPrompt \<lparr>textView = Some (NewView 80 1), widgetText = []\<rparr> ''Name: '' ''x''))
     [(KeyArrowRight, 0, 0), (KeyOther 0, 0x79, 0), (KeyEnter, 0, 0)]
   = Inr (\<lparr>textView = Some ((NewView 80 1)
              \<lparr>cursorX := 8, buffer := [[0x4E, 0x61, 0x6D, 0x65, 0x3A, 0x20, 0x78, 0x79]],
                 Editable := False, Editor := None, calls := [CallSetCursor 7 0]\<rparr>),
            widgetText = ''Name: ''\<rparr>, [(True, ''xy'')])"
  by (simp add: prompt_defs doPrintf_plain MoveCursor_def)
section \<open>Padding\<close>

text \<open>The three classes of bytes of the regular expression are disjoint.\<close>

lemma class_disjoint:
  "finalByte c \<Longrightarrow> \<not> paramByte c" "finalByte c \<Longrightarrow> \<not> intermediateByte c"
  "intermediateByte c \<Longrightarrow> \<not> paramByte c"
  by (simp_all add: finalByte_def paramByte_def intermediateByte_def)

text \<open>
  The match at the start of a string is a match of the regular expression: it consumes a
  sequence of the language, and every sequence of the language at the start is consumed.
  Since the classes are disjoint, the greedy stars lose no match.
\<close>

lemma match_complete:
  assumes "\<forall>c \<in> set ps. paramByte c" and "\<forall>c \<in> set is. intermediateByte c" and "finalByte f"
  shows "matchEscapeSeq (ESC # CHR ''['' # ps @ is @ f # rest) = Some rest"
proof -
  have np: "\<not> paramByte (hd (is @ f # rest))"
    using assms(2,3) by (cases "is") (auto dest: class_disjoint)
  have "dropWhile paramByte (ps @ is @ f # rest) = dropWhile paramByte (is @ f # rest)"
    using assms(1) by simp
  also have "\<dots> = is @ f # rest"
    using np by (cases "is @ f # rest") auto
  finally have 1: "dropWhile paramByte (ps @ is @ f # rest) = is @ f # rest" .
  have 2: "dropWhile intermediateByte (is @ f # rest) = f # rest"
    using assms(2,3) by (simp add: dropWhile_append2 class_disjoint)
  show ?thesis
    using assms(3) by (simp add: matchEscapeSeq_def 1 2)
qed

lemma match_sound:
  assumes "matchEscapeSeq s = Some rest"
  shows "\<exists>q. spec_escape_seq q \<and> s = q @ rest"
proof -
  from assms obtain r f where s: "s = ESC # CHR ''['' # r"
    and d: "dropWhile intermediateByte (dropWhile paramByte r) = f # rest" and f: "finalByte f"
    by (auto simp: matchEscapeSeq_def split: list.splits if_splits)
  let ?ps = "takeWhile paramByte r"
  let ?is = "takeWhile intermediateByte (dropWhile paramByte r)"
  have "r = ?ps @ ?is @ dropWhile intermediateByte (dropWhile paramByte r)"
    by simp
  with d have r: "r = ?ps @ ?is @ f # rest"
    by simp
  have "spec_escape_seq (ESC # CHR ''['' # ?ps @ ?is @ [f])"
    unfolding spec_escape_seq_def
    using f by (intro exI [of _ ?ps] exI [of _ ?is] exI [of _ f]) (auto dest: set_takeWhileD)
  moreover have "s = (ESC # CHR ''['' # ?ps @ ?is @ [f]) @ rest"
    using s r by simp
  ultimately show ?thesis
    by blast
qed

lemma match_iff:
  "matchEscapeSeq s = Some rest \<longleftrightarrow> (\<exists>q. spec_escape_seq q \<and> s = q @ rest)"
proof
  assume "matchEscapeSeq s = Some rest"
  then show "\<exists>q. spec_escape_seq q \<and> s = q @ rest"
    by (rule match_sound)
next
  assume "\<exists>q. spec_escape_seq q \<and> s = q @ rest"
  then obtain ps "is" f where "s = ESC # CHR ''['' # ps @ is @ f # rest"
    and "\<forall>c \<in> set ps. paramByte c" and "\<forall>c \<in> set is. intermediateByte c" and "finalByte f"
    by (auto simp: spec_escape_seq_def)
  then show "matchEscapeSeq s = Some rest"
    by (simp add: match_complete)
qed

lemma strip_escape_seq:
  assumes "spec_escape_seq q"
  shows "stripEscapeSeq (q @ s) = stripEscapeSeq s"
proof -
  from assms obtain r where q: "q = ESC # r"
    by (auto simp: spec_escape_seq_def)
  from assms have "matchEscapeSeq (q @ s) = Some s"
    by (auto simp: match_iff)
  with q show ?thesis
    by simp
qed

lemma strip_other:
  assumes "matchEscapeSeq (c # s) = None"
  shows "stripEscapeSeq (c # s) = c # stripEscapeSeq s"
  using assms by simp

lemma length_strip: "length (stripEscapeSeq s) \<le> length s"
proof (induction s rule: stripEscapeSeq.induct)
  case 1
  show ?case by simp
next
  case (2 c cs)
  show ?case
  proof (cases "matchEscapeSeq (c # cs)")
    case None
    with 2 show ?thesis by simp
  next
    case (Some rest)
    then obtain q where "c # cs = q @ rest"
      by (auto dest: match_sound)
    then have "length rest \<le> length (c # cs)"
      by (metis length_append le_add2)
    with 2 Some show ?thesis
      by simp
  qed
qed

lemma length_decodeRunes: "length (decodeRunes s) \<le> length s"
proof (induction s rule: decodeRunes.induct)
  case 1
  show ?case by simp
next
  case (2 c cs)
  obtain r n where d: "decodeRune (c # cs) = (r, n)"
    by (cases "decodeRune (c # cs)")
  with 2 have "length (decodeRunes (drop (n - 1) cs)) \<le> length (drop (n - 1) cs)"
    by simp
  with d show ?case
    by (simp del: decodeRune.simps)
qed

text \<open>
  With column counts of 0, 1 or 2, as the library returns them, the width of a string of
  less than \<open>2 ^ 62\<close> bytes does not wrap around.
\<close>

lemma width_fold_bound:
  fixes rw :: "rune \<Rightarrow> goint"
  assumes rw: "\<forall>r. rw r \<in> {0, 1, 2}"
    and a: "0 \<le> sint acc" and b: "sint acc + 2 * int (length rs) < 2 ^ 63"
  shows "0 \<le> sint (foldl (\<lambda>w ch. let r = rw ch; r1 = (if r = 0 \<or> r = 2 \<and> amb ch then 1 else r)
                                  in w + r1) acc rs)"
  using a b
proof (induction rs arbitrary: acc)
  case Nil
  then show ?case by simp
next
  case (Cons ch rs)
  define r1 where "r1 = (if rw ch = 0 \<or> rw ch = 2 \<and> amb ch then 1 else rw ch)"
  from rw have "rw ch = 0 \<or> rw ch = 1 \<or> rw ch = 2"
    by blast
  then have "r1 = 1 \<or> r1 = 2"
    by (auto simp: r1_def)
  then have r: "0 \<le> sint r1" "sint r1 \<le> 2"
    by auto
  from Cons.prems r have s: "sint (acc + r1) = sint acc + sint r1"
    by (simp add: sint_add64)
  have p1: "0 \<le> sint (acc + r1)"
    using Cons.prems(1) r(1) by (simp add: s)
  have p2: "sint (acc + r1) + 2 * int (length rs) < 2 ^ 63"
    using Cons.prems(2) r(2) by (simp add: s)
  have "0 \<le> sint (foldl (\<lambda>w ch. let r = rw ch; r1 = (if r = 0 \<or> r = 2 \<and> amb ch then 1 else r)
                                  in w + r1) (acc + r1) rs)"
    by (rule Cons.IH [OF p1 p2])
  then show ?case
    by (simp add: Let_def r1_def)
qed

lemma width_nonneg:
  fixes rw :: "rune \<Rightarrow> goint"
  assumes "\<forall>r. rw r \<in> {0, 1, 2}" and "2 * length s < 2 ^ 63"
  shows "0 \<le>s StringWidth rw amb (stripEscapeSeq s)"
proof -
  have "length (decodeRunes (stripEscapeSeq s)) \<le> length s"
    using length_decodeRunes [of "stripEscapeSeq s"] length_strip [of s] by simp
  with assms(2) have "2 * length (decodeRunes (stripEscapeSeq s)) < 2 ^ 63"
    by linarith
  then have "int (2 * length (decodeRunes (stripEscapeSeq s))) < int (2 ^ 63)"
    by (simp only: of_nat_less_iff)
  then have "2 * int (length (decodeRunes (stripEscapeSeq s))) < 2 ^ 63"
    by simp
  with width_fold_bound [OF assms(1), of 0 "decodeRunes (stripEscapeSeq s)" amb]
  show ?thesis
    by (simp add: StringWidth_def word_sle_eq)
qed

lemma Pad_wide:
  assumes "\<not> StringWidth rw amb (stripEscapeSeq s) <s n"
  shows "Pad rw amb s n = Inr s"
  using assms by (simp add: Pad_def)

lemma Pad_narrow:
  assumes lt: "StringWidth rw amb (stripEscapeSeq s) <s n"
    and nn: "0 \<le>s StringWidth rw amb (stripEscapeSeq s)"
  shows "Pad rw amb s n
    = Inr (s @ replicate (nat (sint n - sint (StringWidth rw amb (stripEscapeSeq s)))) CHR '' '')"
proof -
  let ?w = "StringWidth rw amb (stripEscapeSeq s)"
  from lt nn have d: "sint (n - ?w) = sint n - sint ?w"
    using sint_bounds64 [of n] by (simp add: word_sless_alt word_sle_eq sint_sub64)
  with lt have "\<not> n - ?w <s 0"
    by (simp add: word_sless_alt)
  then have "Repeat '' '' (n - ?w) = Inr (replicate (nat (sint n - sint ?w)) CHR '' '')"
    by (simp add: Repeat_def d)
  with lt show ?thesis
    by (simp add: Pad_def)
qed

lemma Pad_keeps:
  assumes "Pad rw amb s n = Inr t"
  shows "take (length s) t = s"
  using assms
  by (auto simp: Pad_def Let_def Repeat_def split: if_splits sum.splits)

lemma strip_red: "stripEscapeSeq (''red'' @ ESC # ''[0m'') = ''red''"
  by (simp add: matchEscapeSeq_def ESC_def paramByte_def intermediateByte_def finalByte_def
      byte_def)

lemma Pad_red:
  fixes rw :: "rune \<Rightarrow> goint"
  assumes "rw 0x72 = 1 \<and> rw 0x65 = 1 \<and> rw 0x64 = 1"
  shows "Pad rw amb (''red'' @ ESC # ''[0m'') 5 = Inr (''red'' @ ESC # ''[0m  '')"
proof -
  have w: "StringWidth rw amb ''red'' = 3"
    using assms by (simp add: StringWidth_def byte_def)
  have "Pad rw amb (''red'' @ ESC # ''[0m'') 5
      = Inr ((''red'' @ ESC # ''[0m'') @ replicate (nat (sint (5::goint) - sint (3::goint))) CHR '' '')"
    using Pad_narrow [of rw amb "''red'' @ ESC # ''[0m''" 5]
    by (simp only: strip_red w) (simp add: word_sless_alt word_sle_eq)
  then show ?thesis
    by (simp add: numeral_2_eq_2)
qed

text \<open>
  Claim C8. The match that \<^verbatim>\<open>Pad\<close> removes before measuring is a sequence of ESC,
  \<open>[\<close>, parameter bytes, intermediate bytes and one final byte in \<open>@\<close>-\<open>~\<close>; such a
  sequence at the start of a string is removed, and a byte that starts no such sequence is
  kept. With the width \<open>w\<close> of the stripped string: when \<open>w\<close> is not less than \<open>n\<close>,
  \<^verbatim>\<open>Pad(s, n)\<close> is \<open>s\<close> itself; when \<open>w < n\<close> (and \<open>w\<close> has not wrapped around, which
  it cannot with the column counts of the library on a string that fits the memory),
  \<^verbatim>\<open>Pad(s, n)\<close> is the original \<open>s\<close>, escape sequences and all, followed by exactly
  \<open>n - w\<close> spaces. In every case \<open>s\<close> is the start of the result: nothing is truncated.
  In particular \<^verbatim>\<open>Pad("red\x1b[0m", 5)\<close> is \<^verbatim>\<open>"red\x1b[0m  "\<close> when the three letters
  are one column wide.
\<close>

theorem Pad_pads:
  fixes rw :: "rune \<Rightarrow> goint"
  shows
  "(matchEscapeSeq s = Some rest \<longleftrightarrow> (\<exists>q. spec_escape_seq q \<and> s = q @ rest)) \<and>
   (spec_escape_seq q \<longrightarrow> stripEscapeSeq (q @ s) = stripEscapeSeq s) \<and>
   (matchEscapeSeq (c # s) = None \<longrightarrow> stripEscapeSeq (c # s) = c # stripEscapeSeq s) \<and>
   (\<not> StringWidth rw amb (stripEscapeSeq s) <s n \<longrightarrow> Pad rw amb s n = Inr s) \<and>
   (StringWidth rw amb (stripEscapeSeq s) <s n \<and> 0 \<le>s StringWidth rw amb (stripEscapeSeq s) \<longrightarrow>
      Pad rw amb s n
        = Inr (s @ replicate (nat (sint n - sint (StringWidth rw amb (stripEscapeSeq s))))
                     CHR '' '')) \<and>
   ((\<forall>r. rw r \<in> {0, 1, 2}) \<and> 2 * length s < 2 ^ 63 \<longrightarrow>
      0 \<le>s StringWidth rw amb (stripEscapeSeq s)) \<and>
   (\<forall>t. Pad rw amb s n = Inr t \<longrightarrow> take (length s) t = s) \<and>
   (rw 0x72 = 1 \<and> rw 0x65 = 1 \<and> rw 0x64 = 1 \<longrightarrow>
      Pad rw amb (''red'' @ ESC # ''[0m'') 5 = Inr (''red'' @ ESC # ''[0m  ''))"
proof -
  have 1: "matchEscapeSeq s = Some rest \<longleftrightarrow> (\<exists>q. spec_escape_seq q \<and> s = q @ rest)"
    by (rule match_iff)
  have 2: "spec_escape_seq q \<longrightarrow> stripEscapeSeq (q @ s) = stripEscapeSeq s"
    by (simp add: strip_escape_seq)
  have 3: "matchEscapeSeq (c # s) = None \<longrightarrow> stripEscapeSeq (c # s) = c # stripEscapeSeq s"
    by simp
  have 4: "\<not> StringWidth rw amb (stripEscapeSeq s) <s n \<longrightarrow> Pad rw amb s n = Inr s"
    by (simp add: Pad_wide)
  have 5: "StringWidth rw amb (stripEscapeSeq s) <s n \<and> 0 \<le>s StringWidth rw amb (stripEscapeSeq s) \<longrightarrow>
      Pad rw amb s n
        = Inr (s @ replicate (nat (sint n - sint (StringWidth rw amb (stripEscapeSeq s))))
                     CHR '' '')"
    by (simp add: Pad_narrow)
  have 6: "(\<forall>r. rw r \<in> {0, 1, 2}) \<and> 2 * length s < 2 ^ 63 \<longrightarrow>
      0 \<le>s StringWidth rw amb (stripEscapeSeq s)"
    using width_nonneg [of rw s amb] by blast
  have 7: "\<forall>t. Pad rw amb s n = Inr t \<longrightarrow> take (length s) t = s"
    using Pad_keeps [of rw amb s n] by blast
  have 8: "rw 0x72 = 1 \<and> rw 0x65 = 1 \<and> rw 0x64 = 1 \<longrightarrow>
      Pad rw amb (''red'' @ ESC # ''[0m'') 5 = Inr (''red'' @ ESC # ''[0m  '')"
    using Pad_red [of rw amb] by blast
  show ?thesis
    by (intro conjI 1 2 3 4 5 6 7 8)
qed

text \<open>The theorem at the string of the example, every rune one column wide.\<close>

theorem Pad_pads_witness:
  "spec_escape_seq (ESC # ''[0m'') \<and>
   stripEscapeSeq ((ESC # ''[0m'') @ ''ed'') = stripEscapeSeq ''ed'' \<and>
   matchEscapeSeq (CHR ''r'' # ''ed'') = None \<and>
   stripEscapeSeq (CHR ''r'' # ''ed'') = CHR ''r'' # stripEscapeSeq ''ed'' \<and>
   \<not> StringWidth (\<lambda>_. 1) (\<lambda>_. False) (stripEscapeSeq (''red'' @ ESC # ''[0m'')) <s 3 \<and>
   Pad (\<lambda>_. 1) (\<lambda>_. False) (''red'' @ ESC # ''[0m'') 3 = Inr (''red'' @ ESC # ''[0m'') \<and>
   StringWidth (\<lambda>_. 1) (\<lambda>_. False) (stripEscapeSeq (''red'' @ ESC # ''[0m'')) <s 5 \<and>
   0 \<le>s StringWidth (\<lambda>_. 1) (\<lambda>_. False) (stripEscapeSeq (''red'' @ ESC # ''[0m'')) \<and>
   (\<forall>r :: rune. (1 :: goint) \<in> {0, 1, 2}) \<and> 2 * length (''red'' @ ESC # ''[0m'') < 2 ^ 63 \<and>
   (1 :: goint) = 1 \<and>
   Pad (\<lambda>_. 1) (\<lambda>_. False) (''red'' @ ESC # ''[0m'') 5 = Inr (''red'' @ ESC # ''[0m  '') \<and>
   take (length (''red'' @ ESC # ''[0m'')) (''red'' @ ESC # ''[0m  '') = ''red'' @ ESC # ''[0m''"
proof -
  let ?s = "''red'' @ ESC # ''[0m''"
  let ?rw = "\<lambda>_ :: rune. 1 :: goint"
  let ?amb = "\<lambda>_ :: rune. False"
  have q: "spec_escape_seq (ESC # ''[0m'')"
    unfolding spec_escape_seq_def
    by (intro exI [of _ "''0''"] exI [of _ "[]"] exI [of _ "CHR ''m''"])
      (simp add: paramByte_def finalByte_def byte_def)
  have m: "matchEscapeSeq (CHR ''r'' # ''ed'') = None"
    by (simp add: matchEscapeSeq_def ESC_def)
  have w: "StringWidth ?rw ?amb (stripEscapeSeq ?s) = 3"
    by (simp only: strip_red) (simp add: StringWidth_def byte_def)
  have h4: "\<not> StringWidth ?rw ?amb (stripEscapeSeq ?s) <s 3"
    unfolding w by (simp add: word_sless_alt)
  have h5: "StringWidth ?rw ?amb (stripEscapeSeq ?s) <s 5 \<and> 0 \<le>s StringWidth ?rw ?amb (stripEscapeSeq ?s)"
    unfolding w by (simp add: word_sless_alt word_sle_eq)
  have h6: "(\<forall>r :: rune. ?rw r \<in> {0, 1, 2}) \<and> 2 * length ?s < 2 ^ 63"
    by simp
  have h8: "?rw 0x72 = 1 \<and> ?rw 0x65 = 1 \<and> ?rw 0x64 = 1"
    by simp
  note c2 = conjunct2
  note t = Pad_pads [where rw = ?rw and amb = ?amb]
  have 2: "stripEscapeSeq ((ESC # ''[0m'') @ ''ed'') = stripEscapeSeq ''ed''"
    by (rule mp [OF t [where s = "''ed''" and q = "ESC # ''[0m''", THEN c2, THEN conjunct1] q])
  have 3: "stripEscapeSeq (CHR ''r'' # ''ed'') = CHR ''r'' # stripEscapeSeq ''ed''"
    by (rule mp [OF t [where s = "''ed''" and c = "CHR ''r''", THEN c2, THEN c2, THEN conjunct1] m])
  have 4: "Pad ?rw ?amb ?s 3 = Inr ?s"
    by (rule mp [OF t [where s = ?s and n = 3, THEN c2, THEN c2, THEN c2, THEN conjunct1] h4])
  have 6: "0 \<le>s StringWidth ?rw ?amb (stripEscapeSeq ?s)"
    by (rule mp [OF t [where s = ?s, THEN c2, THEN c2, THEN c2, THEN c2, THEN c2, THEN conjunct1]
          h6])
  have 8: "Pad ?rw ?amb ?s 5 = Inr (''red'' @ ESC # ''[0m  '')"
    by (rule mp [OF t [where s = ?s, THEN c2, THEN c2, THEN c2, THEN c2, THEN c2, THEN c2,
            THEN c2] h8])
  have 7: "take (length ?s) (''red'' @ ESC # ''[0m  '') = ?s"
    by (rule mp [OF spec [OF t [where s = ?s and n = 5, THEN c2, THEN c2, THEN c2, THEN c2,
            THEN c2, THEN c2, THEN conjunct1]] 8])
  have 5: "Pad ?rw ?amb ?s 5 = Inr (?s @ replicate (nat (sint (5 :: goint)
      - sint (StringWidth ?rw ?amb (stripEscapeSeq ?s)))) CHR '' '')"
    by (rule mp [OF t [where s = ?s and n = 5, THEN c2, THEN c2, THEN c2, THEN c2,
            THEN conjunct1] h5])
  have h6': "(\<forall>r :: rune. (1 :: goint) \<in> {0, 1, 2}) \<and> 2 * length ?s < 2 ^ 63"
    by simp
  show ?thesis
    by (intro conjI q 2 m 3 h4 4 conjunct1 [OF h5] conjunct2 [OF h5] conjunct1 [OF h6']
        conjunct2 [OF h6'] refl 8 7)
qed

end
